theory Spec2Isabelle
  imports Main "HOL-Library.Word"
begin

section \<open>JavaScript strings\<close>

text \<open>
  A JavaScript string is a sequence of UTF-16 code units. String literals of the source
  are ASCII; \<open>js\<close> turns an Isabelle literal into its code units.
\<close>

type_synonym code_unit = "16 word"
type_synonym jsstring = "code_unit list"

definition js :: "string \<Rightarrow> jsstring" where
  "js s = map of_char s"

text \<open>
  \<^verbatim>\<open>String.prototype.trim\<close> removes leading and trailing WhiteSpace and
  LineTerminator code points: TAB, LF, VT, FF, CR, SPACE, NBSP, U+1680, U+2000..U+200A,
  U+2028, U+2029, U+202F, U+205F, U+3000 and U+FEFF.
\<close>

definition isWhiteSpace :: "code_unit \<Rightarrow> bool" where
  "isWhiteSpace c =
     ((0x0009 \<le> c \<and> c \<le> 0x000D) \<or> c = 0x0020 \<or> c = 0x00A0 \<or> c = 0x1680 \<or>
      (0x2000 \<le> c \<and> c \<le> 0x200A) \<or> c = 0x2028 \<or> c = 0x2029 \<or> c = 0x202F \<or>
      c = 0x205F \<or> c = 0x3000 \<or> c = 0xFEFF)"

definition trim :: "jsstring \<Rightarrow> jsstring" where
  "trim s = rev (dropWhile isWhiteSpace (rev (dropWhile isWhiteSpace s)))"

text \<open>
  \<^verbatim>\<open>s.split(",")\<close>: the pieces between separators; the empty string splits
  into one empty piece.
\<close>

fun split :: "code_unit \<Rightarrow> jsstring \<Rightarrow> jsstring list" where
  "split sep [] = [[]]"
| "split sep (c # cs) =
     (if c = sep then [] # split sep cs
      else (case split sep cs of
              [] \<Rightarrow> [[c]]
            | p # ps \<Rightarrow> (c # p) # ps))"

section \<open>Input validation (index.ts, lines 27--39)\<close>

text \<open>
  A regular expression is used only through \<^verbatim>\<open>value.match(regex)\<close> being null or
  not, so it is modelled by the set of strings it matches. None of the three has the
  multiline flag: \<open>^\<close> and \<open>$\<close> anchor at the two ends of the input.
\<close>

type_synonym regex = "jsstring \<Rightarrow> bool"

definition isLower :: "code_unit \<Rightarrow> bool" where
  "isLower c = (0x61 \<le> c \<and> c \<le> 0x7A)"

definition isUpper :: "code_unit \<Rightarrow> bool" where
  "isUpper c = (0x41 \<le> c \<and> c \<le> 0x5A)"

definition isDigit :: "code_unit \<Rightarrow> bool" where
  "isDigit c = (0x30 \<le> c \<and> c \<le> 0x39)"

text \<open>\<^verbatim>\<open>/^[a-zA-Z0-9_]+$/\<close>\<close>

definition BIGQUERY_VALID_CHARACTERS :: regex where
  "BIGQUERY_VALID_CHARACTERS s =
     (s \<noteq> [] \<and> list_all (\<lambda>c. isLower c \<or> isUpper c \<or> isDigit c \<or> c = 0x5F) s)"

text \<open>\<^verbatim>\<open>/^[^\/]+$/\<close>\<close>

definition FIRESTORE_VALID_CHARACTERS :: regex where
  "FIRESTORE_VALID_CHARACTERS s = (s \<noteq> [] \<and> list_all (\<lambda>c. c \<noteq> 0x2F) s)"

text \<open>\<^verbatim>\<open>/^[a-z][a-z0-9-]{0,29}$/\<close>\<close>

definition GCP_PROJECT_VALID_CHARACTERS :: regex where
  "GCP_PROJECT_VALID_CHARACTERS s =
     (case s of
        [] \<Rightarrow> False
      | c # cs \<Rightarrow> isLower c \<and> length cs \<le> 29 \<and>
                 list_all (\<lambda>d. isLower d \<or> isDigit d \<or> d = 0x2D) cs)"

text \<open>
  \<^verbatim>\<open>validateInput\<close> returns either \<^verbatim>\<open>true\<close> or a message. The value comes
  from a prompt of type "input": a string, or \<^verbatim>\<open>undefined\<close> (\<open>None\<close>) when
  nothing was supplied. For a string, \<^verbatim>\<open>!value\<close> holds exactly for the empty one.
\<close>

datatype validation = JsTrue | Message jsstring

definition validateInput :: "jsstring option \<Rightarrow> jsstring \<Rightarrow> regex \<Rightarrow> validation" where
  "validateInput value name regex =
     (case value of
        None \<Rightarrow> Message (js ''Please supply a '' @ name)
      | Some v \<Rightarrow>
          if v = [] \<or> v = js '''' \<or> trim v = js '''' then
            Message (js ''Please supply a '' @ name)
          else if \<not> regex v then
            Message (js ''The '' @ name @ js '' must only contain letters or spaces'')
          else JsTrue)"

text \<open>\<^verbatim>\<open>collect\<close>, the accumulator of the repeatable \<^verbatim>\<open>--schema-files\<close> flag.\<close>

definition collect :: "'a \<Rightarrow> 'a list \<Rightarrow> 'a list" where
  "collect value previous = previous @ [value]"

section \<open>The process and its collaborators\<close>

text \<open>
  A value a promise rejects with; any JavaScript value can be one. The program reads
  two things of it, \<^verbatim>\<open>JSON.stringify(error)\<close> and \<^verbatim>\<open>error.message\<close>, and a
  rejected value is kept as what these two reads give: the text that gets printed, or
  \<open>None\<close> when the read throws a TypeError.
  \<^item> On an error object of a library both reads succeed; so they do on a string or a
    number, whose message prints as \<^verbatim>\<open>undefined\<close>.
  \<^item> \<^verbatim>\<open>JSON.stringify\<close> throws on an object that holds a circular reference or a
    BigInt, or whose \<^verbatim>\<open>toJSON\<close> throws.
  \<^item> \<^verbatim>\<open>undefined\<close> and \<^verbatim>\<open>null\<close> serialise (to what prints as \<^verbatim>\<open>undefined\<close>
    and \<^verbatim>\<open>null\<close>), and reading a property of them throws.
\<close>

datatype js_error =
  Thrown (JSON_stringify: "jsstring option") (error_message: "jsstring option")

text \<open>
  What the program does to the outside, in the order it happens. A prompt is recorded
  with the names of the questions asked. \<open>UnhandledRejection\<close> is a rejected promise
  that no handler is attached to. The last event takes the four arguments of
  \<^verbatim>\<open>initializeSchemaViewResources\<close>; a schema is whatever \<^verbatim>\<open>readSchemas\<close>
  delivers (\<^verbatim>\<open>FirestoreSchema\<close> is declared in another module), and \<open>None\<close> stands
  for \<^verbatim>\<open>undefined\<close>.
\<close>

datatype 's event =
    OutputHelp
  | ProcessExit nat
  | Prompt "string list"
  | ReadSchemas "jsstring list"
  | ConsoleLog jsstring
  | ConsoleError jsstring
  | InitializeApp jsstring
  | NewFactory jsstring
  | UnhandledRejection
  | InitializeSchemaViewResources jsstring jsstring jsstring "'s option"

record 's world =
  trace :: "'s event list"
  PROJECT_ID :: "jsstring option"
  GOOGLE_CLOUD_PROJECT :: "jsstring option"
  firebase_apps :: "jsstring list"
  exited :: "nat option"

text \<open>
  An awaited computation resolves with a value, rejects with an error, or never comes
  back because the process was ended.
\<close>

datatype 'a outcome = Resolved 'a | Rejected js_error | Exited

definition console_log :: "jsstring \<Rightarrow> 's world \<Rightarrow> 's world" where
  "console_log s w = w\<lparr>trace := trace w @ [ConsoleLog s]\<rparr>"

definition console_error :: "jsstring \<Rightarrow> 's world \<Rightarrow> 's world" where
  "console_error s w = w\<lparr>trace := trace w @ [ConsoleError s]\<rparr>"

definition outputHelp :: "'s world \<Rightarrow> 's world" where
  "outputHelp w = w\<lparr>trace := trace w @ [OutputHelp]\<rparr>"

text \<open>
  \<^verbatim>\<open>process.exit(code)\<close>. The program never assigns \<^verbatim>\<open>process.exitCode\<close>, so
  a call without an argument ends the process with status 0.
\<close>

definition process_exit :: "nat option \<Rightarrow> 's world \<Rightarrow> 's world" where
  "process_exit code w =
     (let status = (case code of None \<Rightarrow> 0 | Some c \<Rightarrow> c)
      in w\<lparr>trace := trace w @ [ProcessExit status], exited := Some status\<rparr>)"

text \<open>
  A handler that throws rejects the promise \<^verbatim>\<open>catch\<close> returned, and nothing handles
  that one. The process is not ended by \<^verbatim>\<open>process.exit()\<close> then; how it ends is up
  to the Node.js version (since version 15 with an uncaught exception and status 1).
\<close>

definition unhandledRejection :: "'s world \<Rightarrow> 's world" where
  "unhandledRejection w = w\<lparr>trace := trace w @ [UnhandledRejection]\<rparr>"

definition initializeApp :: "jsstring \<Rightarrow> 's world \<Rightarrow> 's world" where
  "initializeApp databaseURL w =
     w\<lparr>trace := trace w @ [InitializeApp databaseURL],
       firebase_apps := firebase_apps w @ [databaseURL]\<rparr>"

definition new_FirestoreBigQuerySchemaViewFactory :: "jsstring \<Rightarrow> 's world \<Rightarrow> 's world" where
  "new_FirestoreBigQuerySchemaViewFactory bigQueryProjectId w =
     w\<lparr>trace := trace w @ [NewFactory bigQueryProjectId]\<rparr>"

text \<open>
  An object with string keys is the list of its entries in enumeration order;
  \<^verbatim>\<open>obj[key]\<close> is \<open>map_of obj key\<close>.
\<close>

type_synonym 's schemas = "(jsstring \<times> 's) list"

definition Object_keys :: "'s schemas \<Rightarrow> jsstring list" where
  "Object_keys obj = map fst obj"

text \<open>
  The collaborators whose code is in other modules are parameters:
  \<^item> \<^verbatim>\<open>readSchemas\<close> returns the schemas of the given files or throws;
  \<^item> \<^verbatim>\<open>inquirer.prompt\<close> resolves with the answers, an object keyed by the
    questions' names;
  \<^item> \<^verbatim>\<open>initializeSchemaViewResources\<close>, given its four arguments, resolves
    (\<open>None\<close>) or rejects (\<open>Some error\<close>); the table it resolves with is not used.
\<close>

type_synonym 's readSchemas = "jsstring list \<Rightarrow> js_error + 's schemas"
type_synonym answers = "string \<Rightarrow> jsstring"
type_synonym 's factory =
  "jsstring \<Rightarrow> jsstring \<Rightarrow> jsstring \<Rightarrow> 's option \<Rightarrow> js_error option"

section \<open>The command line (index.ts, lines 47--127)\<close>

text \<open>The flags as \<^verbatim>\<open>program.parse(process.argv)\<close> leaves them.\<close>

record program =
  nonInteractive :: bool
  project :: "jsstring option"
  bigQueryProject :: "jsstring option"
  dataset :: "jsstring option"
  tableNamePrefix_flag :: "jsstring option"
  schemaFiles :: "jsstring list"

record question =
  q_message :: jsstring
  q_name :: string
  q_default :: "jsstring option"
  q_type :: string
  q_validate :: "(jsstring option \<Rightarrow> validation) option"

definition questions :: "jsstring option \<Rightarrow> question list" where
  "questions env_PROJECT_ID =
    [\<lparr>q_message = js ''What is your Firebase project ID?'',
      q_name = ''project'',
      q_default = env_PROJECT_ID,
      q_type = ''input'',
      q_validate = Some (\<lambda>value.
        validateInput value (js ''project ID'') FIRESTORE_VALID_CHARACTERS)\<rparr>,
     \<lparr>q_message = js (''What is your Google Cloud Project ID for BigQuery? '' @
        ''(can be the same as the Firebase project ID)''),
      q_name = ''bigQueryProject'',
      q_default = env_PROJECT_ID,
      q_type = ''input'',
      q_validate = Some (\<lambda>value.
        validateInput value (js ''BigQuery project ID'') GCP_PROJECT_VALID_CHARACTERS)\<rparr>,
     \<lparr>q_message = js (''What is the ID of the BigQuery dataset the raw changelog lives in? '' @
        ''(The dataset and the raw changelog must already exist!)''),
      q_name = ''dataset'',
      q_default = None,
      q_type = ''input'',
      q_validate = Some (\<lambda>value.
        validateInput value (js ''dataset ID'') BIGQUERY_VALID_CHARACTERS)\<rparr>,
     \<lparr>q_message = js (''What is the name of the Cloud Firestore collection for which '' @
        ''you want to generate a schema view?''),
      q_name = ''tableNamePrefix'',
      q_default = None,
      q_type = ''input'',
      q_validate = Some (\<lambda>value.
        validateInput value (js ''table name prefix'') BIGQUERY_VALID_CHARACTERS)\<rparr>,
     \<lparr>q_message = js (''Where should this script look for schema definitions? '' @
        ''(Enter a comma-separated list of, optionally globbed, paths to files or '' @
        ''directories).''),
      q_name = ''schemaFiles'',
      q_default = None,
      q_type = ''input'',
      q_validate = None\<rparr>]"

record 's CliConfig =
  projectId :: jsstring
  bigQueryProjectId :: jsstring
  datasetId :: jsstring
  tableNamePrefix :: jsstring
  schemas :: "'s schemas"

section \<open>parseConfig (index.ts, lines 164--198)\<close>

text \<open>
  \<^verbatim>\<open>readSchemas\<close> is called while the returned object is built; when it throws, the
  promise of the async function rejects.
\<close>

definition build_config ::
  "'s readSchemas \<Rightarrow> jsstring \<Rightarrow> jsstring \<Rightarrow> jsstring \<Rightarrow> jsstring \<Rightarrow> jsstring list \<Rightarrow>
   's world \<Rightarrow> 's CliConfig outcome \<times> 's world" where
  "build_config readSchemas p b d t files w =
     (let w' = w\<lparr>trace := trace w @ [ReadSchemas files]\<rparr>
      in case readSchemas files of
           Inl error \<Rightarrow> (Rejected error, w')
         | Inr found \<Rightarrow>
             (Resolved \<lparr>projectId = p, bigQueryProjectId = b, datasetId = d,
                        tableNamePrefix = t, schemas = found\<rparr>, w'))"

definition parseConfig ::
  "program \<Rightarrow> answers \<Rightarrow> 's readSchemas \<Rightarrow> 's world \<Rightarrow> 's CliConfig outcome \<times> 's world" where
  "parseConfig program answers readSchemas w =
     (if nonInteractive program then
        if project program = None \<or>
           bigQueryProject program = None \<or>
           dataset program = None \<or>
           tableNamePrefix_flag program = None \<or>
           length (schemaFiles program) = 0
        then (Exited, process_exit (Some 1) (outputHelp w))
        else build_config readSchemas
               (the (project program)) (the (bigQueryProject program))
               (the (dataset program)) (the (tableNamePrefix_flag program))
               (schemaFiles program) w
      else
        build_config readSchemas
          (answers ''project'') (answers ''bigQueryProject'')
          (answers ''dataset'') (answers ''tableNamePrefix'')
          (map trim (split 0x2C (answers ''schemaFiles'')))
          (w\<lparr>trace := trace w @ [Prompt (map q_name (questions (PROJECT_ID w)))]\<rparr>))"

section \<open>run (index.ts, lines 129--162)\<close>

text \<open>The \<^verbatim>\<open>for ... in\<close> loop over the schema names, each call awaited.\<close>

fun for_in_schemas ::
  "'s factory \<Rightarrow> 's CliConfig \<Rightarrow> jsstring list \<Rightarrow> 's world \<Rightarrow> unit outcome \<times> 's world" where
  "for_in_schemas initializeSchemaViewResources config [] w = (Resolved (), w)"
| "for_in_schemas initializeSchemaViewResources config (schemaName # rest) w =
     (let schema = map_of (schemas config) schemaName;
          w' = w\<lparr>trace := trace w @
                 [InitializeSchemaViewResources (datasetId config) (tableNamePrefix config)
                    schemaName schema]\<rparr>
      in case initializeSchemaViewResources (datasetId config)
                (tableNamePrefix config) schemaName schema of
           Some error \<Rightarrow> (Rejected error, w')
         | None \<Rightarrow> for_in_schemas initializeSchemaViewResources config rest w')"

text \<open>The body of \<^verbatim>\<open>run\<close> after the configuration has been awaited.\<close>

definition run_config ::
  "'s factory \<Rightarrow> 's CliConfig \<Rightarrow> 's world \<Rightarrow> nat outcome \<times> 's world" where
  "run_config initializeSchemaViewResources config w =
     (let w1 = w\<lparr>PROJECT_ID := Some (projectId config),
                 GOOGLE_CLOUD_PROJECT := Some (bigQueryProjectId config)\<rparr>;
          w2 = (if length (firebase_apps w1) = 0
                then initializeApp
                       (js ''https://'' @ projectId config @ js ''.firebaseio.com'') w1
                else w1);
          w3 = (if length (Object_keys (schemas config)) = 0
                then console_log (js ''No schema files found!'') w2
                else w2);
          w4 = new_FirestoreBigQuerySchemaViewFactory (bigQueryProjectId config) w3
      in case for_in_schemas initializeSchemaViewResources config
                (Object_keys (schemas config)) w4 of
           (Resolved u, w5) \<Rightarrow> (Resolved 0, w5)
         | (Rejected error, w5) \<Rightarrow> (Rejected error, w5)
         | (Exited, w5) \<Rightarrow> (Exited, w5))"

definition run ::
  "program \<Rightarrow> answers \<Rightarrow> 's readSchemas \<Rightarrow> 's factory \<Rightarrow> 's world \<Rightarrow> nat outcome \<times> 's world" where
  "run program answers readSchemas initializeSchemaViewResources w =
     (case parseConfig program answers readSchemas w of
        (Resolved config, w') \<Rightarrow> run_config initializeSchemaViewResources config w'
      | (Rejected error, w') \<Rightarrow> (Rejected error, w')
      | (Exited, w') \<Rightarrow> (Exited, w'))"

section \<open>The top level (index.ts, lines 200--209)\<close>

definition main ::
  "program \<Rightarrow> answers \<Rightarrow> 's readSchemas \<Rightarrow> 's factory \<Rightarrow> 's world \<Rightarrow> 's world" where
  "main program answers readSchemas initializeSchemaViewResources w =
     (case run program answers readSchemas initializeSchemaViewResources w of
        (Resolved result, w') \<Rightarrow> process_exit None (console_log (js ''done.'') w')
      | (Rejected error, w') \<Rightarrow>
          (case JSON_stringify error of
             None \<Rightarrow> unhandledRejection w'
           | Some json \<Rightarrow>
               (let w'' = console_log json w'
                in case error_message error of
                     None \<Rightarrow> unhandledRejection w''
                   | Some message \<Rightarrow> process_exit None (console_error message w'')))
      | (Exited, w') \<Rightarrow> w')"

text \<open>A freshly started process.\<close>

definition fresh :: "jsstring option \<Rightarrow> 's world" where
  "fresh env_PROJECT_ID =
     \<lparr>trace = [], PROJECT_ID = env_PROJECT_ID, GOOGLE_CLOUD_PROJECT = None,
      firebase_apps = [], exited = None\<rparr>"

section \<open>Reading a trace\<close>

text \<open>
  The events a computation added to the trace, the calls of
  \<^verbatim>\<open>initializeSchemaViewResources\<close> among some events (all of them, or those for one
  schema name), and the factories constructed.
\<close>

definition new_events :: "'s world \<Rightarrow> 's world \<Rightarrow> 's event list" where
  "new_events w w' = drop (length (trace w)) (trace w')"

fun is_call :: "'s event \<Rightarrow> bool" where
  "is_call (InitializeSchemaViewResources d t n s) = True"
| "is_call e = False"

fun is_factory :: "'s event \<Rightarrow> bool" where
  "is_factory (NewFactory b) = True"
| "is_factory e = False"

definition calls :: "'s event list \<Rightarrow> 's event list" where
  "calls es = filter is_call es"

definition factories :: "'s event list \<Rightarrow> 's event list" where
  "factories es = filter is_factory es"

fun is_call_for :: "jsstring \<Rightarrow> 's event \<Rightarrow> bool" where
  "is_call_for schemaName (InitializeSchemaViewResources d t n s) = (n = schemaName)"
| "is_call_for schemaName e = False"

definition calls_for :: "jsstring \<Rightarrow> 's event list \<Rightarrow> 's event list" where
  "calls_for schemaName es = filter (is_call_for schemaName) es"

text \<open>
  The call the loop body makes for a schema name, and what the factory answers to it.
\<close>

definition call_of :: "'s CliConfig \<Rightarrow> jsstring \<Rightarrow> 's event" where
  "call_of config schemaName =
     InitializeSchemaViewResources (datasetId config) (tableNamePrefix config) schemaName
       (map_of (schemas config) schemaName)"

definition answer_of :: "'s factory \<Rightarrow> 's CliConfig \<Rightarrow> jsstring \<Rightarrow> js_error option" where
  "answer_of initializeSchemaViewResources config schemaName =
     initializeSchemaViewResources (datasetId config) (tableNamePrefix config) schemaName
       (map_of (schemas config) schemaName)"

text \<open>
  What \<^verbatim>\<open>run\<close> does between the configuration and the loop (lines 134--152): the
  Firebase app when there is none yet, the message when there is no schema, the factory.
\<close>

definition setup_events :: "'s CliConfig \<Rightarrow> 's world \<Rightarrow> 's event list" where
  "setup_events config w =
     (if firebase_apps w = []
      then [InitializeApp (js ''https://'' @ projectId config @ js ''.firebaseio.com'')]
      else []) @
     (if schemas config = [] then [ConsoleLog (js ''No schema files found!'')] else []) @
     [NewFactory (bigQueryProjectId config)]"

section \<open>Example inputs\<close>

text \<open>
  Two schema files, \<^verbatim>\<open>users.json\<close> and \<^verbatim>\<open>posts.json\<close>, given on the command
  line in non-interactive mode; schemas are numbered here, their content plays no role
  in \<^verbatim>\<open>run\<close>.
\<close>

definition flags2 :: program where
  "flags2 =
     \<lparr>nonInteractive = True, project = Some (js ''demo''),
      bigQueryProject = Some (js ''demo-bq''), dataset = Some (js ''firestore_export''),
      tableNamePrefix_flag = Some (js ''app''),
      schemaFiles = [js ''users.json'', js ''posts.json'']\<rparr>"

definition read2 :: "nat readSchemas" where
  "read2 files = Inr [(js ''users'', 1), (js ''posts'', 2)]"

definition read0 :: "nat readSchemas" where
  "read0 files = Inr []"

definition no_answers :: answers where
  "no_answers question = []"

definition config2 :: "nat CliConfig" where
  "config2 =
     \<lparr>projectId = js ''demo'', bigQueryProjectId = js ''demo-bq'',
      datasetId = js ''firestore_export'', tableNamePrefix = js ''app'',
      schemas = [(js ''users'', 1), (js ''posts'', 2)]\<rparr>"

definition view_creation_failed :: js_error where
  "view_creation_failed = Thrown (Some (js ''{}'')) (Some (js ''Already Exists''))"

text \<open>A factory that rejects for the schema \<^verbatim>\<open>users\<close> and one that never rejects.\<close>

definition rejects_users :: "nat factory" where
  "rejects_users d t schemaName schema =
     (if schemaName = js ''users'' then Some view_creation_failed else None)"

definition resolves :: "nat factory" where
  "resolves d t schemaName schema = None"

text \<open>
  An error object with a circular reference, the value \<^verbatim>\<open>undefined\<close>, and a
  factory that rejects for the schema \<^verbatim>\<open>users\<close> with a given value.
\<close>

definition circular_error :: js_error where
  "circular_error = Thrown None (Some (js ''Already Exists''))"

definition undefined_value :: js_error where
  "undefined_value = Thrown (Some (js ''undefined'')) None"

definition rejects_users_with :: "js_error \<Rightarrow> nat factory" where
  "rejects_users_with thrown d t schemaName schema =
     (if schemaName = js ''users'' then Some thrown else None)"

section \<open>The schema compiler\<close>

text \<open>
  The compiler itself (the module \<^verbatim>\<open>./schema\<close> that \<^verbatim>\<open>index.ts\<close> imports the
  factory from) is not among the sources. What follows is modelled from sections 3, 4.1,
  4.2 and 4.3 of the specification.
\<close>

text \<open>
  Modelled from the spec: the data model of section 3 (\<^verbatim>\<open>FieldType\<close>, \<^verbatim>\<open>Field\<close>,
  \<^verbatim>\<open>FirestoreSchema\<close>), missing with \<^verbatim>\<open>schema.ts\<close>. \<open>MAP\<close> carries its nested
  fields, \<open>ARRAY\<close> its element field; \<open>UNRECOGNIZED\<close> is a declared type outside the
  enumeration, the one section 4.1 has no resolution rule for.
\<close>

datatype FieldType =
    STRING | NUMBER | BOOLEAN | TIMESTAMP | GEOPOINT | REFERENCE | NULL
  | MAP "Field list"
  | ARRAY Field
  | STRINGIFIED_MAP
  | UNRECOGNIZED jsstring
and Field =
    Field (field_name: jsstring) (field_type: FieldType) (field_description: "jsstring option")

text \<open>
  Modelled from the spec: \<^verbatim>\<open>FirestoreSchema\<close> of section 3, missing with
  \<^verbatim>\<open>schema.ts\<close>: the ordered list of the fields.
\<close>

datatype FirestoreSchema = FirestoreSchema (fields: "Field list")

text \<open>
  Modelled from the spec: the target SQL types of section 4.1, missing with
  \<^verbatim>\<open>schema.ts\<close>. For \<open>NUMBER\<close> the spec allows \<^verbatim>\<open>FLOAT64\<close> or \<^verbatim>\<open>NUMERIC\<close>;
  \<^verbatim>\<open>FLOAT64\<close> is taken.
\<close>

datatype SqlType = SQL_STRING | SQL_FLOAT64 | SQL_BOOLEAN | SQL_TIMESTAMP

text \<open>
  Modelled from the spec: the extraction expressions of section 4.1, missing with
  \<^verbatim>\<open>schema.ts\<close>. The spec names what each extracts at a field path and leaves the SQL
  syntax to the database, so an expression is kept abstract.
\<close>

datatype Extraction =
    JsonString "jsstring list"
  | JsonNumber "jsstring list"
  | JsonBoolean "jsstring list"
  | ParseTimestamp "jsstring list"
  | GeoLatitude "jsstring list"
  | GeoLongitude "jsstring list"
  | ReferencePath "jsstring list"
  | NullLiteral
  | JsonSubtree "jsstring list"

text \<open>
  Modelled from the spec: the error taxonomy of section 7 as far as compilation raises
  it, missing with \<^verbatim>\<open>schema.ts\<close>.
\<close>

datatype CompileError = UnsupportedFieldType jsstring | InvalidSchemaStructure

text \<open>
  Modelled from the spec: a column of section 4.2, missing with \<^verbatim>\<open>schema.ts\<close>: the
  triple of qualified name, extraction expression and SQL type.
\<close>

type_synonym column = "jsstring \<times> Extraction \<times> SqlType"

text \<open>
  Modelled from the spec: the qualified column name \<^verbatim>\<open>pathPrefix.name\<close> of section
  4.2, missing with \<^verbatim>\<open>schema.ts\<close>: the segments of the path joined by dots.
\<close>

fun qualify :: "jsstring list \<Rightarrow> jsstring" where
  "qualify [] = []"
| "qualify [segment] = segment"
| "qualify (segment # rest) = segment @ js ''.'' @ qualify rest"

text \<open>
  Modelled from the spec: the Type Resolver of section 4.1, missing with
  \<^verbatim>\<open>schema.ts\<close>. Given the type of a field and its path it yields the columns the
  field resolves to: one for a primitive, timestamp, reference, null or stringified map,
  two for a geopoint (\<^verbatim>\<open><field>.latitude\<close> and \<^verbatim>\<open><field>.longitude\<close>, both
  \<^verbatim>\<open>FLOAT64\<close>), none for a map or an array, which never resolve directly to a column;
  an unrecognized type fails with \<^verbatim>\<open>UnsupportedFieldType\<close>.
\<close>

fun resolve :: "FieldType \<Rightarrow> jsstring list \<Rightarrow> CompileError + column list" where
  "resolve STRING path = Inr [(qualify path, JsonString path, SQL_STRING)]"
| "resolve NUMBER path = Inr [(qualify path, JsonNumber path, SQL_FLOAT64)]"
| "resolve BOOLEAN path = Inr [(qualify path, JsonBoolean path, SQL_BOOLEAN)]"
| "resolve TIMESTAMP path = Inr [(qualify path, ParseTimestamp path, SQL_TIMESTAMP)]"
| "resolve GEOPOINT path =
     Inr [(qualify (path @ [js ''latitude'']), GeoLatitude path, SQL_FLOAT64),
          (qualify (path @ [js ''longitude'']), GeoLongitude path, SQL_FLOAT64)]"
| "resolve REFERENCE path = Inr [(qualify path, ReferencePath path, SQL_STRING)]"
| "resolve NULL path = Inr [(qualify path, NullLiteral, SQL_STRING)]"
| "resolve STRINGIFIED_MAP path = Inr [(qualify path, JsonSubtree path, SQL_STRING)]"
| "resolve (MAP nested) path = Inr []"
| "resolve (ARRAY element) path = Inr []"
| "resolve (UNRECOGNIZED declared) path = Inl (UnsupportedFieldType declared)"

text \<open>
  Modelled from the spec: the Field Flattener of section 4.2, missing with
  \<^verbatim>\<open>schema.ts\<close>. It walks the fields in declaration order and returns the columns and
  the child schemas: a map is flattened inline under the prefix \<^verbatim>\<open>pathPrefix.name\<close>,
  an array gets no column and registers a child schema, keyed by its path, whose single
  field is the element; any other field is resolved. The first error aborts the whole
  compilation.
\<close>

fun flatten ::
    "Field list \<Rightarrow> jsstring list \<Rightarrow>
     CompileError + (column list \<times> (jsstring \<times> FirestoreSchema) list)"
  and flatten_field ::
    "Field \<Rightarrow> jsstring list \<Rightarrow>
     CompileError + (column list \<times> (jsstring \<times> FirestoreSchema) list)" where
  "flatten [] pathPrefix = Inr ([], [])"
| "flatten (field # rest) pathPrefix =
     (case flatten_field field pathPrefix of
        Inl failure \<Rightarrow> Inl failure
      | Inr (columns, childSchemas) \<Rightarrow>
          (case flatten rest pathPrefix of
             Inl failure \<Rightarrow> Inl failure
           | Inr (columns', childSchemas') \<Rightarrow>
               Inr (columns @ columns', childSchemas @ childSchemas')))"
| "flatten_field (Field fname (MAP nested) fdescription) pathPrefix =
     flatten nested (pathPrefix @ [fname])"
| "flatten_field (Field fname (ARRAY element) fdescription) pathPrefix =
     Inr ([], [(qualify (pathPrefix @ [fname]), FirestoreSchema [element])])"
| "flatten_field (Field fname ftype fdescription) pathPrefix =
     (case resolve ftype (pathPrefix @ [fname]) of
        Inl failure \<Rightarrow> Inl failure
      | Inr columns \<Rightarrow> Inr (columns, []))"

section \<open>The Latest-Snapshot view\<close>

text \<open>
  Modelled from the spec: the operation type of a changelog entry (glossary: create,
  update, delete), missing with \<^verbatim>\<open>schema.ts\<close>.
\<close>

datatype Operation = CREATE | UPDATE | DELETE

text \<open>
  Modelled from the spec: a row of the changelog table (sections 1 and 4.3, glossary),
  missing with \<^verbatim>\<open>schema.ts\<close>: document path, timestamp, the secondary monotonic
  sequence column, operation type and raw payload.
\<close>

record ChangelogRow =
  document_path :: jsstring
  changed_at :: int
  sequence_number :: nat
  operation :: Operation
  payload :: jsstring

text \<open>
  Modelled from the spec: the ordering of section 4.3, missing with \<^verbatim>\<open>schema.ts\<close>:
  by timestamp, ties on identical timestamps broken by the sequence column.
  \<open>newer r r'\<close> says that \<open>r\<close> is the later write.
\<close>

definition newer :: "ChangelogRow \<Rightarrow> ChangelogRow \<Rightarrow> bool" where
  "newer r r' =
     (changed_at r' < changed_at r \<or>
      (changed_at r' = changed_at r \<and> sequence_number r' < sequence_number r))"

text \<open>
  Modelled from the spec: "the row with the maximum changelog timestamp" of section 4.3,
  missing with \<^verbatim>\<open>schema.ts\<close>: the latest of some rows, none when there is no row.
\<close>

fun most_recent :: "ChangelogRow list \<Rightarrow> ChangelogRow option" where
  "most_recent [] = None"
| "most_recent (r # rs) =
     (case most_recent rs of
        None \<Rightarrow> Some r
      | Some m \<Rightarrow> if newer m r then Some m else Some r)"

text \<open>
  Modelled from the spec: the rows of one document path (section 4.3 works "for each
  distinct document path"), missing with \<^verbatim>\<open>schema.ts\<close>.
\<close>

definition rows_of :: "jsstring \<Rightarrow> ChangelogRow list \<Rightarrow> ChangelogRow list" where
  "rows_of path changelog = filter (\<lambda>r. document_path r = path) changelog"

text \<open>
  Modelled from the spec: what the Latest-Snapshot view of section 4.3 holds for one
  document path, missing with \<^verbatim>\<open>schema.ts\<close>. In the words of that section: the row
  with the maximum changelog timestamp among the non-delete operations, and nothing for
  a document path whose most recent operation is a delete.
\<close>

definition snapshot_of_path :: "ChangelogRow list \<Rightarrow> jsstring \<Rightarrow> ChangelogRow list" where
  "snapshot_of_path changelog path =
     (case most_recent (rows_of path changelog) of
        None \<Rightarrow> []
      | Some latest \<Rightarrow>
          if operation latest = DELETE then []
          else (case most_recent
                       (filter (\<lambda>r. operation r \<noteq> DELETE) (rows_of path changelog)) of
                  None \<Rightarrow> []
                | Some r \<Rightarrow> [r]))"

text \<open>
  Modelled from the spec: the rows of the Latest-Snapshot view of section 4.3, missing
  with \<^verbatim>\<open>schema.ts\<close>: the rows selected for each distinct document path of the
  changelog.
\<close>

definition latest_snapshot :: "ChangelogRow list \<Rightarrow> ChangelogRow list" where
  "latest_snapshot changelog =
     concat (map (snapshot_of_path changelog) (remdups (map document_path changelog)))"

text \<open>
  A changelog for the examples: the document \<^verbatim>\<open>users/ann\<close> is created and then
  updated; the document \<^verbatim>\<open>users/bob\<close> is created and deleted within the same
  timestamp, the delete having the higher sequence number.
\<close>

definition example_changelog :: "ChangelogRow list" where
  "example_changelog =
     [\<lparr>document_path = js ''users/ann'', changed_at = 10, sequence_number = 0,
       operation = CREATE, payload = js ''ann, version 1''\<rparr>,
      \<lparr>document_path = js ''users/bob'', changed_at = 11, sequence_number = 1,
       operation = DELETE, payload = js ''null''\<rparr>,
      \<lparr>document_path = js ''users/bob'', changed_at = 11, sequence_number = 0,
       operation = CREATE, payload = js ''bob, version 1''\<rparr>,
      \<lparr>document_path = js ''users/ann'', changed_at = 12, sequence_number = 2,
       operation = UPDATE, payload = js ''ann, version 2''\<rparr>]"

section \<open>Properties\<close>

lemma js_Nil [simp]: "js [] = []"
  by (simp add: js_def)

lemma list_all_dropWhile: "list_all P (dropWhile P s) = list_all P s"
  by (induction s) simp_all

lemma trim_Nil_iff: "trim s = [] \<longleftrightarrow> list_all isWhiteSpace s"
proof -
  have "trim s = [] \<longleftrightarrow> list_all isWhiteSpace (dropWhile isWhiteSpace s)"
    by (simp add: trim_def list_all_iff)
  then show ?thesis
    by (simp add: list_all_dropWhile)
qed

subsection \<open>The loop and the body of run\<close>

lemma for_in_resolves:
  "\<forall>n\<in>set ks. answer_of f c n = None \<Longrightarrow>
   for_in_schemas f c ks w = (Resolved (), w\<lparr>trace := trace w @ map (call_of c) ks\<rparr>)"
proof (induction ks arbitrary: w)
  case Nil
  show ?case by simp
next
  case (Cons k ks)
  from Cons.prems have k: "f (datasetId c) (tableNamePrefix c) k (map_of (schemas c) k) = None"
    and rest: "\<forall>n\<in>set ks. answer_of f c n = None"
    by (simp_all add: answer_of_def)
  show ?case
    by (simp add: k Let_def Cons.IH [OF rest] call_of_def)
qed

lemma for_in_rejects:
  "\<forall>n\<in>set before. answer_of f c n = None \<Longrightarrow> answer_of f c k = Some e \<Longrightarrow>
   for_in_schemas f c (before @ k # after) w =
     (Rejected e, w\<lparr>trace := trace w @ map (call_of c) (before @ [k])\<rparr>)"
proof (induction before arbitrary: w)
  case Nil
  then show ?case by (simp add: answer_of_def call_of_def Let_def)
next
  case (Cons b before)
  from Cons.prems have b: "f (datasetId c) (tableNamePrefix c) b (map_of (schemas c) b) = None"
    and rest: "\<forall>n\<in>set before. answer_of f c n = None"
    by (simp_all add: answer_of_def)
  show ?case
    by (simp add: b Let_def Cons.IH [OF rest Cons.prems(2)] call_of_def)
qed

lemma first_rejection:
  "(\<forall>n\<in>set ks. answer_of f c n = None) \<or>
   (\<exists>before k after e. ks = before @ k # after \<and>
      (\<forall>n\<in>set before. answer_of f c n = None) \<and> answer_of f c k = Some e)"
proof (cases "\<exists>n\<in>set ks. answer_of f c n \<noteq> None")
  case False
  then show ?thesis by simp
next
  case True
  then obtain before k after where
    "ks = before @ k # after" "answer_of f c k \<noteq> None"
    "\<forall>n\<in>set before. \<not> answer_of f c n \<noteq> None"
    using split_list_first_prop [of ks "\<lambda>n. answer_of f c n \<noteq> None"] by blast
  then show ?thesis by auto
qed

lemma new_events_append [simp]:
  "new_events w (w'\<lparr>trace := trace w @ es\<rparr>) = es"
  by (simp add: new_events_def)

lemma Object_keys_empty: "Object_keys obj = [] \<longleftrightarrow> obj = []"
  by (simp add: Object_keys_def)

lemma run_config_resolves:
  assumes "\<forall>n\<in>set (Object_keys (schemas c)). answer_of f c n = None"
  shows "run_config f c w =
    (Resolved 0,
     w\<lparr>PROJECT_ID := Some (projectId c), GOOGLE_CLOUD_PROJECT := Some (bigQueryProjectId c),
       firebase_apps := (if firebase_apps w = []
          then [js ''https://'' @ projectId c @ js ''.firebaseio.com''] else firebase_apps w),
       trace := trace w @ setup_events c w @ map (call_of c) (Object_keys (schemas c))\<rparr>)"
  by (simp add: run_config_def Let_def for_in_resolves [OF assms] setup_events_def
      initializeApp_def console_log_def new_FirestoreBigQuerySchemaViewFactory_def
      Object_keys_empty)

lemma run_config_rejects:
  assumes "Object_keys (schemas c) = before @ k # after"
    and "\<forall>n\<in>set before. answer_of f c n = None"
    and "answer_of f c k = Some e"
  shows "run_config f c w =
    (Rejected e,
     w\<lparr>PROJECT_ID := Some (projectId c), GOOGLE_CLOUD_PROJECT := Some (bigQueryProjectId c),
       firebase_apps := (if firebase_apps w = []
          then [js ''https://'' @ projectId c @ js ''.firebaseio.com''] else firebase_apps w),
       trace := trace w @ setup_events c w @ map (call_of c) (before @ [k])\<rparr>)"
proof -
  have ne: "schemas c \<noteq> []"
    using assms(1) by (auto simp add: Object_keys_def)
  show ?thesis
    by (simp add: run_config_def Let_def assms(1) for_in_rejects [OF assms(2,3)]
        setup_events_def initializeApp_def console_log_def ne Object_keys_empty
        new_FirestoreBigQuerySchemaViewFactory_def)
qed

lemma calls_setup: "calls (setup_events c w @ map (call_of c) ks) = map (call_of c) ks"
  by (induction ks) (simp_all add: calls_def setup_events_def call_of_def)

lemma factories_setup:
  "factories (setup_events c w @ map (call_of c) ks) = [NewFactory (bigQueryProjectId c)]"
  by (induction ks) (simp_all add: factories_def setup_events_def call_of_def)

lemma parseConfig_trace:
  "\<exists>es. trace (snd (parseConfig p a r w)) = trace w @ es \<and> calls es = [] \<and> factories es = []"
  by (auto simp add: parseConfig_def build_config_def Let_def process_exit_def outputHelp_def
      calls_def factories_def split: sum.splits)

lemma run_parsed:
  "parseConfig p a r w = (Resolved c, w1) \<Longrightarrow> run p a r f w = run_config f c w1"
  by (simp add: run_def)

subsection \<open>validateInput\<close>

lemma BIGQUERY_rejects_space: "\<not> BIGQUERY_VALID_CHARACTERS (js ''a b'')"
  by (simp add: BIGQUERY_VALID_CHARACTERS_def js_def isLower_def isUpper_def isDigit_def)

lemma BIGQUERY_accepts_my_dataset: "BIGQUERY_VALID_CHARACTERS (js ''my_dataset'')"
  by (simp add: BIGQUERY_VALID_CHARACTERS_def js_def isLower_def isUpper_def isDigit_def)

lemma not_blank_a_b: "\<not> list_all isWhiteSpace (js ''a b'')"
  by (simp add: js_def isWhiteSpace_def)

lemma trim_my_dataset: "trim (js ''my_dataset'') = js ''my_dataset''"
  by (simp add: trim_def js_def isWhiteSpace_def)

lemma blank_spaces: "list_all isWhiteSpace (js ''  '')"
  by (simp add: js_def isWhiteSpace_def)

text \<open>
  C10. For every value, name and regex, \<^verbatim>\<open>validateInput\<close> returns \<^verbatim>\<open>true\<close>
  if and only if the value is truthy (a non-empty string), its \<^verbatim>\<open>trim()\<close> is
  non-empty and it matches the regex. The checks run in the order of the source: a value
  that is missing or consists of white space only gets \<^verbatim>\<open>Please supply a <name>\<close>,
  and a value that passed this check and fails the regex gets
  \<^verbatim>\<open>The <name> must only contain letters or spaces\<close>. The four identifier prompts
  (project, bigQueryProject, dataset, tableNamePrefix) validate with it, each with its
  own regex, so each accepts a value exactly when it is not blank and matches; the
  prompt for the schema files has no validator.
\<close>

theorem validateInput_spec:
  "(validateInput value name regex = JsTrue \<longleftrightarrow>
      (\<exists>v. value = Some v \<and> v \<noteq> [] \<and> trim v \<noteq> [] \<and> regex v)) \<and>
   ((value = None \<or> (\<exists>v. value = Some v \<and> list_all isWhiteSpace v)) \<longrightarrow>
      validateInput value name regex = Message (js ''Please supply a '' @ name)) \<and>
   ((\<exists>v. value = Some v \<and> \<not> list_all isWhiteSpace v \<and> \<not> regex v) \<longrightarrow>
      validateInput value name regex =
        Message (js ''The '' @ name @ js '' must only contain letters or spaces'')) \<and>
   map (\<lambda>q. (q_name q, map_option (\<lambda>validate. validate value = JsTrue) (q_validate q)))
       (questions env_PROJECT_ID) =
     [(''project'',
         Some (\<exists>v. value = Some v \<and> trim v \<noteq> [] \<and> FIRESTORE_VALID_CHARACTERS v)),
      (''bigQueryProject'',
         Some (\<exists>v. value = Some v \<and> trim v \<noteq> [] \<and> GCP_PROJECT_VALID_CHARACTERS v)),
      (''dataset'',
         Some (\<exists>v. value = Some v \<and> trim v \<noteq> [] \<and> BIGQUERY_VALID_CHARACTERS v)),
      (''tableNamePrefix'',
         Some (\<exists>v. value = Some v \<and> trim v \<noteq> [] \<and> BIGQUERY_VALID_CHARACTERS v)),
      (''schemaFiles'', None)]"
proof (intro conjI)
  show "validateInput value name regex = JsTrue \<longleftrightarrow>
      (\<exists>v. value = Some v \<and> v \<noteq> [] \<and> trim v \<noteq> [] \<and> regex v)"
    by (cases "value") (simp_all add: validateInput_def)
  show "(value = None \<or> (\<exists>v. value = Some v \<and> list_all isWhiteSpace v)) \<longrightarrow>
      validateInput value name regex = Message (js ''Please supply a '' @ name)"
    by (cases "value") (simp_all add: validateInput_def trim_Nil_iff)
  show "(\<exists>v. value = Some v \<and> \<not> list_all isWhiteSpace v \<and> \<not> regex v) \<longrightarrow>
      validateInput value name regex =
        Message (js ''The '' @ name @ js '' must only contain letters or spaces'')"
    by (cases "value") (auto simp add: validateInput_def trim_Nil_iff)
  show "map (\<lambda>q. (q_name q, map_option (\<lambda>validate. validate value = JsTrue) (q_validate q)))
       (questions env_PROJECT_ID) =
     [(''project'',
         Some (\<exists>v. value = Some v \<and> trim v \<noteq> [] \<and> FIRESTORE_VALID_CHARACTERS v)),
      (''bigQueryProject'',
         Some (\<exists>v. value = Some v \<and> trim v \<noteq> [] \<and> GCP_PROJECT_VALID_CHARACTERS v)),
      (''dataset'',
         Some (\<exists>v. value = Some v \<and> trim v \<noteq> [] \<and> BIGQUERY_VALID_CHARACTERS v)),
      (''tableNamePrefix'',
         Some (\<exists>v. value = Some v \<and> trim v \<noteq> [] \<and> BIGQUERY_VALID_CHARACTERS v)),
      (''schemaFiles'', None)]"
    by (cases "value") (auto simp add: questions_def validateInput_def trim_Nil_iff)
qed

theorem validateInput_spec_witness:
  "validateInput (Some (js ''a b'')) (js ''dataset ID'') BIGQUERY_VALID_CHARACTERS =
     Message (js ''The dataset ID must only contain letters or spaces'') \<and>
   validateInput (Some (js ''  '')) (js ''dataset ID'') BIGQUERY_VALID_CHARACTERS =
     Message (js ''Please supply a dataset ID'') \<and>
   validateInput None (js ''dataset ID'') BIGQUERY_VALID_CHARACTERS =
     Message (js ''Please supply a dataset ID'') \<and>
   validateInput (Some (js ''my_dataset'')) (js ''dataset ID'') BIGQUERY_VALID_CHARACTERS =
     JsTrue"
proof (intro conjI)
  have "validateInput (Some (js ''a b'')) (js ''dataset ID'') BIGQUERY_VALID_CHARACTERS =
     Message (js ''The '' @ js ''dataset ID'' @ js '' must only contain letters or spaces'')"
    using validateInput_spec [of "Some (js ''a b'')" "js ''dataset ID''"
        BIGQUERY_VALID_CHARACTERS] BIGQUERY_rejects_space not_blank_a_b
    by blast
  then show "validateInput (Some (js ''a b'')) (js ''dataset ID'') BIGQUERY_VALID_CHARACTERS =
     Message (js ''The dataset ID must only contain letters or spaces'')"
    by (simp add: js_def)
  have "validateInput (Some (js ''  '')) (js ''dataset ID'') BIGQUERY_VALID_CHARACTERS =
     Message (js ''Please supply a '' @ js ''dataset ID'')"
    using validateInput_spec [of "Some (js ''  '')" "js ''dataset ID''"
        BIGQUERY_VALID_CHARACTERS] blank_spaces
    by blast
  then show "validateInput (Some (js ''  '')) (js ''dataset ID'') BIGQUERY_VALID_CHARACTERS =
     Message (js ''Please supply a dataset ID'')"
    by (simp add: js_def)
  have "validateInput None (js ''dataset ID'') BIGQUERY_VALID_CHARACTERS =
     Message (js ''Please supply a '' @ js ''dataset ID'')"
    using validateInput_spec [of None "js ''dataset ID''" BIGQUERY_VALID_CHARACTERS]
    by blast
  then show "validateInput None (js ''dataset ID'') BIGQUERY_VALID_CHARACTERS =
     Message (js ''Please supply a dataset ID'')"
    by (simp add: js_def)
  have "my_dataset \<noteq> []" if "my_dataset = js ''my_dataset''" for my_dataset
    using that by (simp add: js_def)
  then show "validateInput (Some (js ''my_dataset'')) (js ''dataset ID'')
      BIGQUERY_VALID_CHARACTERS = JsTrue"
    using validateInput_spec [of "Some (js ''my_dataset'')" "js ''dataset ID''"
        BIGQUERY_VALID_CHARACTERS] BIGQUERY_accepts_my_dataset trim_my_dataset
    by auto
qed

subsection \<open>run\<close>

lemma new_events_trace: "trace w' = trace w @ es \<Longrightarrow> new_events w w' = es"
  by (simp add: new_events_def)

lemma calls_append: "calls (xs @ ys) = calls xs @ calls ys"
  by (simp add: calls_def)

lemma parseConfig_calls:
  assumes "parseConfig p a r w = (out, w1)"
  obtains es where "trace w1 = trace w @ es" "calls es = []" "factories es = []"
  using parseConfig_trace [of p a r w] assms by auto

text \<open>
  C2. For every configuration whose parsed schema mapping is empty, \<^verbatim>\<open>run\<close> logs
  \<^verbatim>\<open>No schema files found!\<close>, constructs the factory, makes no call of
  \<^verbatim>\<open>initializeSchemaViewResources\<close> and resolves with 0; it does not reject. The
  only other event is the initialisation of the Firebase app when there is none yet.
\<close>

theorem run_no_schemas:
  assumes "parseConfig program answers readSchemas w = (Resolved config, w1)"
    and "schemas config = []"
  shows "fst (run program answers readSchemas initializeSchemaViewResources w) = Resolved 0 \<and>
    new_events w1 (snd (run program answers readSchemas initializeSchemaViewResources w)) =
      (if firebase_apps w1 = []
       then [InitializeApp (js ''https://'' @ projectId config @ js ''.firebaseio.com'')]
       else []) @
      [ConsoleLog (js ''No schema files found!''), NewFactory (bigQueryProjectId config)] \<and>
    calls (new_events w (snd (run program answers readSchemas initializeSchemaViewResources w)))
      = []"
proof -
  let ?f = initializeSchemaViewResources
  have none: "\<forall>n\<in>set (Object_keys (schemas config)). answer_of ?f config n = None"
    by (simp add: assms(2) Object_keys_def)
  have run: "run program answers readSchemas ?f w = run_config ?f config w1"
    by (rule run_parsed [OF assms(1)])
  have res: "fst (run_config ?f config w1) = Resolved 0"
    and tr: "trace (snd (run_config ?f config w1)) = trace w1 @ setup_events config w1"
    by (simp_all add: run_config_resolves [OF none] assms(2) Object_keys_def)
  obtain es where es: "trace w1 = trace w @ es" "calls es = []"
    using assms(1) by (rule parseConfig_calls)
  have pre: "calls (setup_events config w1) = []"
    using calls_setup [of config w1 "[]"] by simp
  have "new_events w (snd (run_config ?f config w1)) = es @ setup_events config w1"
    by (rule new_events_trace) (simp add: tr es(1))
  then have "calls (new_events w (snd (run_config ?f config w1))) = []"
    by (simp add: calls_append es(2) pre)
  moreover have "new_events w1 (snd (run_config ?f config w1)) =
      (if firebase_apps w1 = []
       then [InitializeApp (js ''https://'' @ projectId config @ js ''.firebaseio.com'')]
       else []) @
      [ConsoleLog (js ''No schema files found!''), NewFactory (bigQueryProjectId config)]"
    using new_events_trace [OF tr] by (simp add: setup_events_def assms(2))
  ultimately show ?thesis
    by (simp add: run res)
qed

lemma parse_read0:
  "parseConfig flags2 no_answers read0 (fresh None) =
     (Resolved (config2\<lparr>schemas := []\<rparr>),
      (fresh None)\<lparr>trace := [ReadSchemas [js ''users.json'', js ''posts.json'']]\<rparr>)"
  by (simp add: parseConfig_def flags2_def build_config_def read0_def config2_def fresh_def)

lemma parse_read2:
  "parseConfig flags2 no_answers read2 (fresh None) =
     (Resolved config2,
      (fresh None)\<lparr>trace := [ReadSchemas [js ''users.json'', js ''posts.json'']]\<rparr>)"
  by (simp add: parseConfig_def flags2_def build_config_def read2_def config2_def fresh_def)

theorem run_no_schemas_witness:
  "parseConfig flags2 no_answers read0 (fresh None) =
     (Resolved (config2\<lparr>schemas := []\<rparr>),
      (fresh None)\<lparr>trace := [ReadSchemas [js ''users.json'', js ''posts.json'']]\<rparr>) \<and>
   fst (run flags2 no_answers read0 resolves (fresh None)) = Resolved 0 \<and>
   new_events ((fresh None)\<lparr>trace := [ReadSchemas [js ''users.json'', js ''posts.json'']]\<rparr>)
       (snd (run flags2 no_answers read0 resolves (fresh None))) =
     [InitializeApp (js ''https://demo.firebaseio.com''),
      ConsoleLog (js ''No schema files found!''),
      NewFactory (js ''demo-bq'')] \<and>
   calls (new_events (fresh None) (snd (run flags2 no_answers read0 resolves (fresh None))))
     = []"
proof -
  have empty: "schemas (config2\<lparr>schemas := []\<rparr>) = []"
    by simp
  have apps: "firebase_apps ((fresh None)\<lparr>trace := es\<rparr>) = []" for es :: "nat event list"
    by (simp add: fresh_def)
  have url: "js ''https://'' @ projectId (config2\<lparr>schemas := []\<rparr>) @ js ''.firebaseio.com''
      = js ''https://demo.firebaseio.com''"
    by (simp add: config2_def js_def)
  have bq: "bigQueryProjectId (config2\<lparr>schemas := []\<rparr>) = js ''demo-bq''"
    by (simp add: config2_def)
  show ?thesis
    using run_no_schemas [OF parse_read0 empty, of resolves]
    by (simp only: parse_read0 apps url bq if_True append_Cons append_Nil simp_thms)
qed

subsection \<open>The examples, evaluated\<close>

lemma keys_config2: "Object_keys (schemas config2) = [] @ js ''users'' # [js ''posts'']"
  by (simp add: Object_keys_def config2_def)

lemma rejects_users_first: "answer_of rejects_users config2 (js ''users'') = Some view_creation_failed"
  by (simp add: answer_of_def rejects_users_def)

lemma run_rejects_users:
  "run flags2 no_answers read2 rejects_users (fresh None) =
     (Rejected view_creation_failed,
      \<lparr>trace = [ReadSchemas [js ''users.json'', js ''posts.json''],
                InitializeApp (js ''https://demo.firebaseio.com''),
                NewFactory (js ''demo-bq''),
                InitializeSchemaViewResources (js ''firestore_export'') (js ''app'')
                  (js ''users'') (Some 1)],
       PROJECT_ID = Some (js ''demo''), GOOGLE_CLOUD_PROJECT = Some (js ''demo-bq''),
       firebase_apps = [js ''https://demo.firebaseio.com''], exited = None\<rparr>)"
proof -
  have "run flags2 no_answers read2 rejects_users (fresh None) =
      run_config rejects_users config2
        ((fresh None)\<lparr>trace := [ReadSchemas [js ''users.json'', js ''posts.json'']]\<rparr>)"
    by (rule run_parsed [OF parse_read2])
  also have "\<dots> = (Rejected view_creation_failed,
      \<lparr>trace = [ReadSchemas [js ''users.json'', js ''posts.json''],
                InitializeApp (js ''https://demo.firebaseio.com''),
                NewFactory (js ''demo-bq''),
                InitializeSchemaViewResources (js ''firestore_export'') (js ''app'')
                  (js ''users'') (Some 1)],
       PROJECT_ID = Some (js ''demo''), GOOGLE_CLOUD_PROJECT = Some (js ''demo-bq''),
       firebase_apps = [js ''https://demo.firebaseio.com''], exited = None\<rparr>)"
    by (subst run_config_rejects [OF keys_config2 _ rejects_users_first])
      (simp_all add: setup_events_def call_of_def fresh_def config2_def js_def)
  finally show ?thesis .
qed

lemma rejects_users_with_first:
  "answer_of (rejects_users_with thrown) config2 (js ''users'') = Some thrown"
  by (simp add: answer_of_def rejects_users_with_def)

lemma run_rejects_users_with:
  assumes "answer_of f config2 (js ''users'') = Some thrown"
  shows "run flags2 no_answers read2 f (fresh None) =
     (Rejected thrown,
      \<lparr>trace = [ReadSchemas [js ''users.json'', js ''posts.json''],
                InitializeApp (js ''https://demo.firebaseio.com''),
                NewFactory (js ''demo-bq''),
                InitializeSchemaViewResources (js ''firestore_export'') (js ''app'')
                  (js ''users'') (Some 1)],
       PROJECT_ID = Some (js ''demo''), GOOGLE_CLOUD_PROJECT = Some (js ''demo-bq''),
       firebase_apps = [js ''https://demo.firebaseio.com''], exited = None\<rparr>)"
proof -
  have "run flags2 no_answers read2 f (fresh None) =
      run_config f config2
        ((fresh None)\<lparr>trace := [ReadSchemas [js ''users.json'', js ''posts.json'']]\<rparr>)"
    by (rule run_parsed [OF parse_read2])
  also have "\<dots> = (Rejected thrown,
      \<lparr>trace = [ReadSchemas [js ''users.json'', js ''posts.json''],
                InitializeApp (js ''https://demo.firebaseio.com''),
                NewFactory (js ''demo-bq''),
                InitializeSchemaViewResources (js ''firestore_export'') (js ''app'')
                  (js ''users'') (Some 1)],
       PROJECT_ID = Some (js ''demo''), GOOGLE_CLOUD_PROJECT = Some (js ''demo-bq''),
       firebase_apps = [js ''https://demo.firebaseio.com''], exited = None\<rparr>)"
    by (subst run_config_rejects [OF keys_config2 _ assms])
      (simp_all add: setup_events_def call_of_def fresh_def config2_def js_def)
  finally show ?thesis .
qed

lemma run_resolves:
  "run flags2 no_answers read2 resolves (fresh None) =
     (Resolved 0,
      \<lparr>trace = [ReadSchemas [js ''users.json'', js ''posts.json''],
                InitializeApp (js ''https://demo.firebaseio.com''),
                NewFactory (js ''demo-bq''),
                InitializeSchemaViewResources (js ''firestore_export'') (js ''app'')
                  (js ''users'') (Some 1),
                InitializeSchemaViewResources (js ''firestore_export'') (js ''app'')
                  (js ''posts'') (Some 2)],
       PROJECT_ID = Some (js ''demo''), GOOGLE_CLOUD_PROJECT = Some (js ''demo-bq''),
       firebase_apps = [js ''https://demo.firebaseio.com''], exited = None\<rparr>)"
proof -
  have none: "\<forall>n\<in>set (Object_keys (schemas config2)). answer_of resolves config2 n = None"
    by (simp add: answer_of_def resolves_def)
  have "run flags2 no_answers read2 resolves (fresh None) =
      run_config resolves config2
        ((fresh None)\<lparr>trace := [ReadSchemas [js ''users.json'', js ''posts.json'']]\<rparr>)"
    by (rule run_parsed [OF parse_read2])
  also have "\<dots> = (Resolved 0,
      \<lparr>trace = [ReadSchemas [js ''users.json'', js ''posts.json''],
                InitializeApp (js ''https://demo.firebaseio.com''),
                NewFactory (js ''demo-bq''),
                InitializeSchemaViewResources (js ''firestore_export'') (js ''app'')
                  (js ''users'') (Some 1),
                InitializeSchemaViewResources (js ''firestore_export'') (js ''app'')
                  (js ''posts'') (Some 2)],
       PROJECT_ID = Some (js ''demo''), GOOGLE_CLOUD_PROJECT = Some (js ''demo-bq''),
       firebase_apps = [js ''https://demo.firebaseio.com''], exited = None\<rparr>)"
    by (subst run_config_resolves [OF none])
      (simp add: setup_events_def call_of_def fresh_def Object_keys_def config2_def js_def)
  finally show ?thesis .
qed

subsection \<open>The top level\<close>

text \<open>
  C5, as amended. For every error \<^verbatim>\<open>run\<close> rejects with (a failed view creation,
  say) whose JSON serialisation and whose message can be read, the top-level handler
  logs the serialisation, then the message, and then calls \<^verbatim>\<open>process.exit()\<close>
  without an argument: the process ends with exit status 0, the status it also ends with
  when \<^verbatim>\<open>run\<close> resolves. When \<^verbatim>\<open>JSON.stringify(error)\<close> throws, the handler logs
  nothing and does not reach \<^verbatim>\<open>process.exit()\<close>; when reading the message throws
  (the rejection is \<^verbatim>\<open>undefined\<close> or \<^verbatim>\<open>null\<close>), it has logged the
  serialisation and does not reach \<^verbatim>\<open>process.exit()\<close> either.
\<close>

theorem main_exit_status_after_rejection:
  "(run program answers readSchemas initializeSchemaViewResources w = (Rejected error, w') \<and>
    JSON_stringify error = Some json \<and> error_message error = Some message \<longrightarrow>
      main program answers readSchemas initializeSchemaViewResources w =
        w'\<lparr>trace := trace w' @ [ConsoleLog json, ConsoleError message, ProcessExit 0],
           exited := Some 0\<rparr>) \<and>
   (run program answers readSchemas initializeSchemaViewResources w = (Resolved result, w') \<longrightarrow>
      main program answers readSchemas initializeSchemaViewResources w =
        w'\<lparr>trace := trace w' @ [ConsoleLog (js ''done.''), ProcessExit 0],
           exited := Some 0\<rparr>) \<and>
   (run program answers readSchemas initializeSchemaViewResources w = (Rejected error, w') \<and>
    JSON_stringify error = None \<longrightarrow>
      main program answers readSchemas initializeSchemaViewResources w =
        w'\<lparr>trace := trace w' @ [UnhandledRejection]\<rparr>) \<and>
   (run program answers readSchemas initializeSchemaViewResources w = (Rejected error, w') \<and>
    JSON_stringify error = Some json \<and> error_message error = None \<longrightarrow>
      main program answers readSchemas initializeSchemaViewResources w =
        w'\<lparr>trace := trace w' @ [ConsoleLog json, UnhandledRejection]\<rparr>)"
  by (simp add: main_def process_exit_def console_log_def console_error_def
      unhandledRejection_def Let_def)

theorem main_exit_status_after_rejection_witness:
  "fst (run flags2 no_answers read2 rejects_users (fresh None)) = Rejected view_creation_failed \<and>
   drop 4 (trace (main flags2 no_answers read2 rejects_users (fresh None))) =
     [ConsoleLog (js ''{}''), ConsoleError (js ''Already Exists''), ProcessExit 0] \<and>
   exited (main flags2 no_answers read2 rejects_users (fresh None)) = Some 0 \<and>
   fst (run flags2 no_answers read2 resolves (fresh None)) = Resolved 0 \<and>
   exited (main flags2 no_answers read2 resolves (fresh None)) = Some 0 \<and>
   drop 4 (trace (main flags2 no_answers read2 (rejects_users_with circular_error)
     (fresh None))) = [UnhandledRejection] \<and>
   drop 4 (trace (main flags2 no_answers read2 (rejects_users_with undefined_value) (fresh None))) =
     [ConsoleLog (js ''undefined''), UnhandledRejection]"
  using main_exit_status_after_rejection
      [where program = flags2 and answers = no_answers and readSchemas = read2
        and initializeSchemaViewResources = rejects_users and w = "fresh None"
        and error = view_creation_failed and json = "js ''{}''"
        and message = "js ''Already Exists''"
        and w' = "snd (run flags2 no_answers read2 rejects_users (fresh None))"]
    main_exit_status_after_rejection
      [where program = flags2 and answers = no_answers and readSchemas = read2
        and initializeSchemaViewResources = resolves and w = "fresh None" and result = 0
        and w' = "snd (run flags2 no_answers read2 resolves (fresh None))"]
    main_exit_status_after_rejection
      [where program = flags2 and answers = no_answers and readSchemas = read2
        and initializeSchemaViewResources =
          "rejects_users_with circular_error"
        and w = "fresh None" and error = circular_error
        and w' = "snd (run flags2 no_answers read2
          (rejects_users_with circular_error) (fresh None))"]
    main_exit_status_after_rejection
      [where program = flags2 and answers = no_answers and readSchemas = read2
        and initializeSchemaViewResources = "rejects_users_with undefined_value"
        and w = "fresh None" and error = undefined_value and json = "js ''undefined''"
        and w' = "snd (run flags2 no_answers read2 (rejects_users_with undefined_value)
          (fresh None))"]
  by (simp add: run_rejects_users run_resolves view_creation_failed_def
      run_rejects_users_with [OF rejects_users_with_first] circular_error_def
      undefined_value_def)

text \<open>
  The claim as stated fails: when the view creation for \<^verbatim>\<open>users\<close> rejects with an
  error object that \<^verbatim>\<open>JSON.stringify\<close> cannot serialise (one holding a circular
  reference, say), the handler throws at its first statement: nothing is logged and
  \<^verbatim>\<open>process.exit()\<close> is never called.
\<close>

theorem main_handler_throws_counterexample:
  "fst (run flags2 no_answers read2
     (rejects_users_with circular_error) (fresh None)) =
     Rejected circular_error \<and>
   trace (main flags2 no_answers read2
     (rejects_users_with circular_error) (fresh None)) =
     [ReadSchemas [js ''users.json'', js ''posts.json''],
      InitializeApp (js ''https://demo.firebaseio.com''),
      NewFactory (js ''demo-bq''),
      InitializeSchemaViewResources (js ''firestore_export'') (js ''app'') (js ''users'')
        (Some 1),
      UnhandledRejection] \<and>
   exited (main flags2 no_answers read2
     (rejects_users_with circular_error) (fresh None)) = None"
  by (simp add: main_def run_rejects_users_with [OF rejects_users_with_first]
      unhandledRejection_def circular_error_def)

subsection \<open>parseConfig\<close>

text \<open>
  C9. In non-interactive mode, if one of the flags project, big-query-project, dataset
  and table-name-prefix is undefined, or the list of schema files is empty, the program
  prints the help and exits with status 1, and that is all it does: no schema is read,
  no app initialised, no factory constructed, no view resource created. Otherwise
  \<^verbatim>\<open>parseConfig\<close> calls \<^verbatim>\<open>readSchemas(schemaFiles)\<close> and returns the configuration
  made of the four flags and of the schemas read (it rejects with the error when
  \<^verbatim>\<open>readSchemas\<close> throws one).
\<close>

theorem parseConfig_nonInteractive:
  assumes "nonInteractive program"
  shows
   "(project program = None \<or> bigQueryProject program = None \<or> dataset program = None \<or>
     tableNamePrefix_flag program = None \<or> schemaFiles program = [] \<longrightarrow>
       parseConfig program answers readSchemas w =
         (Exited, w\<lparr>trace := trace w @ [OutputHelp, ProcessExit 1], exited := Some 1\<rparr>) \<and>
       main program answers readSchemas initializeSchemaViewResources w =
         w\<lparr>trace := trace w @ [OutputHelp, ProcessExit 1], exited := Some 1\<rparr>) \<and>
    (project program = Some p \<and> bigQueryProject program = Some b \<and> dataset program = Some d \<and>
     tableNamePrefix_flag program = Some t \<and> schemaFiles program \<noteq> [] \<longrightarrow>
       parseConfig program answers readSchemas w =
         (case readSchemas (schemaFiles program) of
            Inl error \<Rightarrow> Rejected error
          | Inr found \<Rightarrow>
              Resolved \<lparr>projectId = p, bigQueryProjectId = b, datasetId = d,
                         tableNamePrefix = t, schemas = found\<rparr>,
          w\<lparr>trace := trace w @ [ReadSchemas (schemaFiles program)]\<rparr>))"
proof (intro conjI impI)
  assume missing: "project program = None \<or> bigQueryProject program = None \<or>
    dataset program = None \<or> tableNamePrefix_flag program = None \<or> schemaFiles program = []"
  with assms show exit: "parseConfig program answers readSchemas w =
      (Exited, w\<lparr>trace := trace w @ [OutputHelp, ProcessExit 1], exited := Some 1\<rparr>)"
    by (auto simp add: parseConfig_def process_exit_def outputHelp_def)
  show "main program answers readSchemas initializeSchemaViewResources w =
      w\<lparr>trace := trace w @ [OutputHelp, ProcessExit 1], exited := Some 1\<rparr>"
    by (simp add: main_def run_def exit)
next
  assume given: "project program = Some p \<and> bigQueryProject program = Some b \<and>
    dataset program = Some d \<and> tableNamePrefix_flag program = Some t \<and>
    schemaFiles program \<noteq> []"
  with assms show "parseConfig program answers readSchemas w =
      (case readSchemas (schemaFiles program) of
         Inl error \<Rightarrow> Rejected error
       | Inr found \<Rightarrow>
           Resolved \<lparr>projectId = p, bigQueryProjectId = b, datasetId = d,
                      tableNamePrefix = t, schemas = found\<rparr>,
       w\<lparr>trace := trace w @ [ReadSchemas (schemaFiles program)]\<rparr>)"
    by (simp add: parseConfig_def build_config_def Let_def split: sum.split)
qed

theorem parseConfig_nonInteractive_witness:
  "nonInteractive (flags2\<lparr>dataset := None\<rparr>) \<and>
   dataset (flags2\<lparr>dataset := None\<rparr>) = None \<and>
   main (flags2\<lparr>dataset := None\<rparr>) no_answers read2 resolves (fresh None) =
     (fresh None)\<lparr>trace := [OutputHelp, ProcessExit 1], exited := Some 1\<rparr> \<and>
   nonInteractive flags2 \<and>
   parseConfig flags2 no_answers read2 (fresh None) =
     (Resolved config2,
      (fresh None)\<lparr>trace := [ReadSchemas [js ''users.json'', js ''posts.json'']]\<rparr>)"
proof -
  have non: "nonInteractive (flags2\<lparr>dataset := None\<rparr>)" "nonInteractive flags2"
    by (simp_all add: flags2_def)
  have tr: "trace (fresh None :: nat world) = []"
    by (simp add: fresh_def)
  show ?thesis
    using parseConfig_nonInteractive [where program = "flags2\<lparr>dataset := None\<rparr>"
        and answers = no_answers and readSchemas = read2 and w = "fresh None"
        and initializeSchemaViewResources = resolves, OF non(1)]
      parseConfig_nonInteractive [where program = flags2
        and answers = no_answers and readSchemas = read2 and w = "fresh None"
        and p = "js ''demo''" and b = "js ''demo-bq''" and d = "js ''firestore_export''"
        and t = "js ''app''", OF non(2)]
    by (simp add: non tr) (simp add: flags2_def read2_def config2_def)
qed

subsection \<open>The calls run makes\<close>

lemma factories_append: "factories (xs @ ys) = factories xs @ factories ys"
  by (simp add: factories_def)

lemma run_summary_resolves:
  assumes parse: "parseConfig p a r w = (Resolved c, w1)"
    and none: "\<forall>n\<in>set (Object_keys (schemas c)). answer_of f c n = None"
  shows "fst (run p a r f w) = Resolved 0"
    and "calls (new_events w (snd (run p a r f w))) = map (call_of c) (Object_keys (schemas c))"
    and "factories (new_events w (snd (run p a r f w))) = [NewFactory (bigQueryProjectId c)]"
proof -
  obtain es where es: "trace w1 = trace w @ es" "calls es = []" "factories es = []"
    using parse by (rule parseConfig_calls)
  have run: "run p a r f w = run_config f c w1"
    by (rule run_parsed [OF parse])
  have new: "new_events w (snd (run p a r f w)) =
      es @ setup_events c w1 @ map (call_of c) (Object_keys (schemas c))"
    by (rule new_events_trace) (simp add: run run_config_resolves [OF none] es(1))
  show "fst (run p a r f w) = Resolved 0"
    by (simp add: run run_config_resolves [OF none])
  show "calls (new_events w (snd (run p a r f w))) = map (call_of c) (Object_keys (schemas c))"
    by (simp only: new calls_append [of es] es(2) calls_setup append_Nil)
  show "factories (new_events w (snd (run p a r f w))) = [NewFactory (bigQueryProjectId c)]"
    by (simp only: new factories_append [of es] es(3) factories_setup append_Nil)
qed

lemma run_summary_rejects:
  assumes parse: "parseConfig p a r w = (Resolved c, w1)"
    and keys: "Object_keys (schemas c) = before @ k # after"
    and none: "\<forall>n\<in>set before. answer_of f c n = None"
    and rej: "answer_of f c k = Some e"
  shows "fst (run p a r f w) = Rejected e"
    and "calls (new_events w (snd (run p a r f w))) = map (call_of c) (before @ [k])"
    and "factories (new_events w (snd (run p a r f w))) = [NewFactory (bigQueryProjectId c)]"
proof -
  obtain es where es: "trace w1 = trace w @ es" "calls es = []" "factories es = []"
    using parse by (rule parseConfig_calls)
  have run: "run p a r f w = run_config f c w1"
    by (rule run_parsed [OF parse])
  have new: "new_events w (snd (run p a r f w)) =
      es @ setup_events c w1 @ map (call_of c) (before @ [k])"
    by (rule new_events_trace) (simp add: run run_config_rejects [OF keys none rej] es(1))
  show "fst (run p a r f w) = Rejected e"
    by (simp add: run run_config_rejects [OF keys none rej])
  show "calls (new_events w (snd (run p a r f w))) = map (call_of c) (before @ [k])"
    by (simp only: new calls_append [of es] es(2) calls_setup append_Nil)
  show "factories (new_events w (snd (run p a r f w))) = [NewFactory (bigQueryProjectId c)]"
    by (simp only: new factories_append [of es] es(3) factories_setup append_Nil)
qed

lemma is_call_for_is_call: "is_call_for n e \<Longrightarrow> is_call e"
  by (cases e) simp_all

lemma calls_for_calls: "calls_for n es = calls_for n (calls es)"
  by (induction es) (auto simp add: calls_for_def calls_def dest: is_call_for_is_call)

lemma calls_for_call_of:
  "calls_for n (map (call_of c) ks) = map (call_of c) (filter (\<lambda>m. m = n) ks)"
  by (induction ks) (simp_all add: calls_for_def call_of_def)

lemma filter_eq_absent: "n \<notin> set ks \<Longrightarrow> filter (\<lambda>m. m = n) ks = []"
  by (induction ks) auto

lemma filter_eq_distinct: "distinct ks \<Longrightarrow> length (filter (\<lambda>m. m = n) ks) \<le> 1"
  by (induction ks) (auto simp add: filter_eq_absent)

lemma call_of_inject: "call_of c n = call_of c m \<Longrightarrow> n = m"
  by (simp add: call_of_def)

text \<open>
  C1, as amended. If the call of \<^verbatim>\<open>initializeSchemaViewResources\<close> rejects for a
  schema (the calls for the schema names before it having resolved), \<^verbatim>\<open>run\<close> stops
  there: it rejects with that error, the calls it made are those for the schema names up
  to and including the rejecting one, in order, and no remaining schema name gets a call.
\<close>

theorem run_stops_at_first_rejection:
  assumes "parseConfig program answers readSchemas w = (Resolved config, w1)"
    and "Object_keys (schemas config) = before @ schemaName # remaining"
    and "distinct (Object_keys (schemas config))"
    and "\<forall>n\<in>set before. answer_of initializeSchemaViewResources config n = None"
    and "answer_of initializeSchemaViewResources config schemaName = Some error"
  shows "fst (run program answers readSchemas initializeSchemaViewResources w) = Rejected error \<and>
    calls (new_events w (snd (run program answers readSchemas initializeSchemaViewResources w)))
      = map (call_of config) (before @ [schemaName]) \<and>
    (\<forall>n\<in>set remaining.
       calls_for n
         (new_events w (snd (run program answers readSchemas initializeSchemaViewResources w)))
       = [])"
proof -
  let ?new = "new_events w (snd (run program answers readSchemas initializeSchemaViewResources w))"
  note summary = run_summary_rejects [OF assms(1,2,4,5)]
  have "calls_for n ?new = []" if "n \<in> set remaining" for n
  proof -
    from assms(2,3) that have "n \<notin> set (before @ [schemaName])"
      by auto
    then have absent: "filter (\<lambda>m. m = n) (before @ [schemaName]) = []"
      by (rule filter_eq_absent)
    have "calls_for n ?new = calls_for n (calls ?new)"
      by (rule calls_for_calls)
    also have "\<dots> = calls_for n (map (call_of config) (before @ [schemaName]))"
      by (simp only: summary(2))
    also have "\<dots> = map (call_of config) (filter (\<lambda>m. m = n) (before @ [schemaName]))"
      by (rule calls_for_call_of)
    also have "\<dots> = []"
      by (simp only: absent list.map)
    finally show ?thesis .
  qed
  with summary(1,2) show ?thesis
    by blast
qed

lemma distinct_keys_config2: "distinct (Object_keys (schemas config2))"
  by (simp add: Object_keys_def config2_def js_def)

theorem run_stops_at_first_rejection_witness:
  "fst (run flags2 no_answers read2 rejects_users (fresh None)) = Rejected view_creation_failed \<and>
   calls (new_events (fresh None) (snd (run flags2 no_answers read2 rejects_users (fresh None))))
     = [call_of config2 (js ''users'')] \<and>
   calls_for (js ''posts'')
     (new_events (fresh None) (snd (run flags2 no_answers read2 rejects_users (fresh None))))
     = []"
  using run_stops_at_first_rejection
    [OF parse_read2 keys_config2 distinct_keys_config2 _ rejects_users_first]
  by simp

text \<open>
  The claim as stated fails: with the schemas \<^verbatim>\<open>users\<close> and \<^verbatim>\<open>posts\<close> and a
  factory that rejects for \<^verbatim>\<open>users\<close>, the only call is the one for \<^verbatim>\<open>users\<close>;
  the remaining schema \<^verbatim>\<open>posts\<close> is never processed.
\<close>

theorem run_failure_isolation_counterexample:
  "Object_keys (schemas config2) = [js ''users'', js ''posts''] \<and>
   parseConfig flags2 no_answers read2 (fresh None) =
     (Resolved config2,
      (fresh None)\<lparr>trace := [ReadSchemas [js ''users.json'', js ''posts.json'']]\<rparr>) \<and>
   answer_of rejects_users config2 (js ''users'') = Some view_creation_failed \<and>
   answer_of rejects_users config2 (js ''posts'') = None \<and>
   trace (snd (run flags2 no_answers read2 rejects_users (fresh None))) =
     [ReadSchemas [js ''users.json'', js ''posts.json''],
      InitializeApp (js ''https://demo.firebaseio.com''),
      NewFactory (js ''demo-bq''),
      InitializeSchemaViewResources (js ''firestore_export'') (js ''app'') (js ''users'')
        (Some 1)] \<and>
   calls_for (js ''posts'') (trace (snd (run flags2 no_answers read2 rejects_users (fresh None))))
     = []"
proof -
  have "js ''users'' \<noteq> js ''posts''"
    by (simp add: js_def)
  then show ?thesis
    using keys_config2 
    by (simp add: run_rejects_users parse_read2 rejects_users_first calls_for_def)
      (simp add: answer_of_def rejects_users_def)
qed

text \<open>
  C3, as amended. For every parsed configuration, \<^verbatim>\<open>run\<close> constructs exactly one view
  factory, with the BigQuery project ID, and awaits the calls
  \<^verbatim>\<open>initializeSchemaViewResources(datasetId, tableNamePrefix, schemaName,
  schemas[schemaName])\<close> one after the other in the mapping's enumeration order, exactly
  one for each schema name up to and including the first schema name whose call rejects,
  and none after it. When no call rejects, every schema name of the mapping gets exactly
  one call and \<^verbatim>\<open>run\<close> resolves with 0.
\<close>

theorem run_calls_in_enumeration_order:
  assumes "parseConfig program answers readSchemas w = (Resolved config, w1)"
  shows
   "factories (new_events w (snd (run program answers readSchemas initializeSchemaViewResources w)))
      = [NewFactory (bigQueryProjectId config)] \<and>
    ((\<forall>n\<in>set (Object_keys (schemas config)).
        answer_of initializeSchemaViewResources config n = None) \<longrightarrow>
       calls (new_events w (snd (run program answers readSchemas initializeSchemaViewResources w)))
         = map (call_of config) (Object_keys (schemas config)) \<and>
       fst (run program answers readSchemas initializeSchemaViewResources w) = Resolved 0) \<and>
    (\<forall>before schemaName remaining error.
       Object_keys (schemas config) = before @ schemaName # remaining \<and>
       (\<forall>n\<in>set before. answer_of initializeSchemaViewResources config n = None) \<and>
       answer_of initializeSchemaViewResources config schemaName = Some error \<longrightarrow>
       calls (new_events w (snd (run program answers readSchemas initializeSchemaViewResources w)))
         = map (call_of config) (before @ [schemaName]))"
proof (intro conjI allI impI)
  let ?f = initializeSchemaViewResources
  let ?keys = "Object_keys (schemas config)"
  let ?new = "new_events w (snd (run program answers readSchemas ?f w))"
  show "factories ?new = [NewFactory (bigQueryProjectId config)]"
  proof -
    consider (resolves) "\<forall>n\<in>set ?keys. answer_of ?f config n = None"
      | (rejects) before k after e where "?keys = before @ k # after"
          "\<forall>n\<in>set before. answer_of ?f config n = None" "answer_of ?f config k = Some e"
      using first_rejection [of ?keys ?f config] by blast
    then show ?thesis
    proof cases
      case resolves
      then show ?thesis
        by (rule run_summary_resolves(3) [OF assms])
    next
      case rejects
      then show ?thesis
        by (rule run_summary_rejects(3) [OF assms])
    qed
  qed
  show "calls ?new = map (call_of config) ?keys"
    if "\<forall>n\<in>set ?keys. answer_of ?f config n = None"
    using that by (rule run_summary_resolves(2) [OF assms])
  show "fst (run program answers readSchemas ?f w) = Resolved 0"
    if "\<forall>n\<in>set ?keys. answer_of ?f config n = None"
    using that by (rule run_summary_resolves(1) [OF assms])
  show "calls ?new = map (call_of config) (before @ [schemaName])"
    if "?keys = before @ schemaName # remaining \<and>
        (\<forall>n\<in>set before. answer_of ?f config n = None) \<and>
        answer_of ?f config schemaName = Some error"
    for before schemaName remaining error
  proof -
    from that have "?keys = before @ schemaName # remaining"
      and "\<forall>n\<in>set before. answer_of ?f config n = None"
      and "answer_of ?f config schemaName = Some error"
      by simp_all
    then show ?thesis
      by (rule run_summary_rejects(2) [OF assms])
  qed
qed

lemma resolves_config2:
  "\<forall>n\<in>set (Object_keys (schemas config2)). answer_of resolves config2 n = None"
  by (simp add: answer_of_def resolves_def)

theorem run_calls_in_enumeration_order_witness:
  "factories (new_events (fresh None) (snd (run flags2 no_answers read2 resolves (fresh None))))
     = [NewFactory (js ''demo-bq'')] \<and>
   calls (new_events (fresh None) (snd (run flags2 no_answers read2 resolves (fresh None))))
     = [InitializeSchemaViewResources (js ''firestore_export'') (js ''app'') (js ''users'')
          (Some 1),
        InitializeSchemaViewResources (js ''firestore_export'') (js ''app'') (js ''posts'')
          (Some 2)] \<and>
   fst (run flags2 no_answers read2 resolves (fresh None)) = Resolved 0 \<and>
   answer_of rejects_users config2 (js ''users'') = Some view_creation_failed \<and>
   calls (new_events (fresh None) (snd (run flags2 no_answers read2 rejects_users (fresh None))))
     = [InitializeSchemaViewResources (js ''firestore_export'') (js ''app'') (js ''users'')
          (Some 1)]"
proof -
  have keys: "Object_keys (schemas config2) = [js ''users'', js ''posts'']"
    using keys_config2 by simp
  have c: "map (call_of config2) [js ''users'', js ''posts''] =
      [InitializeSchemaViewResources (js ''firestore_export'') (js ''app'') (js ''users'')
          (Some 1),
       InitializeSchemaViewResources (js ''firestore_export'') (js ''app'') (js ''posts'')
          (Some 2)]"
    by (simp add: call_of_def config2_def js_def)
  have u: "map (call_of config2) ([] @ [js ''users'']) =
      [InitializeSchemaViewResources (js ''firestore_export'') (js ''app'') (js ''users'')
          (Some 1)]"
    by (simp add: call_of_def config2_def js_def)
  have b: "bigQueryProjectId config2 = js ''demo-bq''"
    by (simp add: config2_def)
  have none: "\<forall>n\<in>set []. answer_of rejects_users config2 n = None"
    by simp
  have first: "calls (new_events (fresh None)
      (snd (run flags2 no_answers read2 rejects_users (fresh None)))) =
      map (call_of config2) ([] @ [js ''users''])"
    using run_calls_in_enumeration_order [OF parse_read2, of rejects_users]
      keys_config2 none rejects_users_first
    by blast
  show ?thesis
    using run_calls_in_enumeration_order [OF parse_read2, of resolves] resolves_config2
      first rejects_users_first
    by (simp only: keys c u b)
qed

text \<open>
  The claim as stated fails: when the call for \<^verbatim>\<open>users\<close> rejects, the schema name
  \<^verbatim>\<open>posts\<close> of the mapping gets no call at all.
\<close>

theorem run_one_call_per_schema_counterexample:
  "map fst (schemas config2) = [js ''users'', js ''posts''] \<and>
   calls (new_events (fresh None) (snd (run flags2 no_answers read2 rejects_users (fresh None))))
     = [InitializeSchemaViewResources (js ''firestore_export'') (js ''app'') (js ''users'')
          (Some 1)] \<and>
   length (calls_for (js ''posts'')
     (new_events (fresh None) (snd (run flags2 no_answers read2 rejects_users (fresh None)))))
     = 0"
proof -
  have "js ''users'' \<noteq> js ''posts''"
    by (simp add: js_def)
  moreover have "trace (fresh None :: nat world) = []"
    by (simp add: fresh_def)
  moreover have "map fst (schemas config2) = [js ''users'', js ''posts'']"
    by (simp add: config2_def)
  ultimately show ?thesis
    by (simp add: run_rejects_users new_events_def calls_def calls_for_def)
qed

text \<open>
  C4. \<^verbatim>\<open>run\<close> never retries: in one invocation every schema name gets at most one
  call of \<^verbatim>\<open>initializeSchemaViewResources\<close> (the keys of an object are distinct).
  And for every schema whose call \<^verbatim>\<open>run\<close> made and which rejected, \<^verbatim>\<open>run\<close>
  itself rejects with the very same error: nothing inside \<^verbatim>\<open>run\<close> catches or
  changes it.
\<close>

theorem run_no_retry_and_propagates:
  assumes "parseConfig program answers readSchemas w = (Resolved config, w1)"
    and "distinct (Object_keys (schemas config))"
  shows
   "(\<forall>schemaName.
       length (calls_for schemaName
         (new_events w (snd (run program answers readSchemas initializeSchemaViewResources w))))
       \<le> 1) \<and>
    (\<forall>schemaName error.
       call_of config schemaName \<in>
         set (calls (new_events w
           (snd (run program answers readSchemas initializeSchemaViewResources w)))) \<and>
       answer_of initializeSchemaViewResources config schemaName = Some error \<longrightarrow>
       run program answers readSchemas initializeSchemaViewResources w =
         (Rejected error, snd (run program answers readSchemas initializeSchemaViewResources w)))"
proof -
  let ?f = initializeSchemaViewResources
  let ?keys = "Object_keys (schemas config)"
  let ?run = "run program answers readSchemas ?f w"
  let ?new = "new_events w (snd ?run)"
  have count: "length (calls_for n (map (call_of config) ks)) \<le> 1" if "distinct ks" for n ks
    using filter_eq_distinct [OF that, of n] by (simp add: calls_for_call_of)
  have once: "length (calls_for n ?new) \<le> 1" if "calls ?new = map (call_of config) ks"
    and "distinct ks" for n ks
    using count [OF that(2), of n] calls_for_calls [of n ?new] by (simp add: that(1))
  consider (resolves) "\<forall>n\<in>set ?keys. answer_of ?f config n = None"
    | (rejects) before k after e where "?keys = before @ k # after"
        "\<forall>n\<in>set before. answer_of ?f config n = None" "answer_of ?f config k = Some e"
    using first_rejection [of ?keys ?f config] by blast
  then show ?thesis
  proof cases
    case resolves
    note summary = run_summary_resolves [OF assms(1) resolves]
    have "length (calls_for n ?new) \<le> 1" for n
      using summary(2) assms(2) by (rule once)
    moreover have "answer_of ?f config n = None" if "call_of config n \<in> set (calls ?new)" for n
    proof -
      from that obtain m where "m \<in> set ?keys" "call_of config n = call_of config m"
        by (auto simp add: summary(2))
      then show ?thesis
        using resolves call_of_inject by blast
    qed
    ultimately show ?thesis
      by auto
  next
    case rejects
    note summary = run_summary_rejects [OF assms(1) rejects]
    have "distinct (before @ [k])"
      using assms(2) by (simp add: rejects(1))
    with summary(2) have "length (calls_for n ?new) \<le> 1" for n
      by (rule once)
    moreover have "?run = (Rejected error, snd ?run)"
      if "call_of config n \<in> set (calls ?new)" "answer_of ?f config n = Some error"
      for n error
    proof -
      from that(1) obtain m where m: "m \<in> set (before @ [k])"
          "call_of config n = call_of config m"
        by (auto simp add: summary(2))
      then have "n = m"
        using call_of_inject by blast
      with m(1) that(2) rejects(2) have "n = k"
        by auto
      with that(2) rejects(3) have "error = e"
        by simp
      with summary(1) show ?thesis
        by (simp add: prod_eq_iff)
    qed
    ultimately show ?thesis
      by blast
  qed
qed

theorem run_no_retry_and_propagates_witness:
  "length (calls_for (js ''users'')
     (new_events (fresh None) (snd (run flags2 no_answers read2 rejects_users (fresh None)))))
     \<le> 1 \<and>
   calls (new_events (fresh None) (snd (run flags2 no_answers read2 rejects_users (fresh None))))
     = [call_of config2 (js ''users'')] \<and>
   answer_of rejects_users config2 (js ''users'') = Some view_creation_failed \<and>
   fst (run flags2 no_answers read2 rejects_users (fresh None)) = Rejected view_creation_failed"
proof -
  have made: "calls (new_events (fresh None)
      (snd (run flags2 no_answers read2 rejects_users (fresh None))))
      = [call_of config2 (js ''users'')]"
    using run_summary_rejects(2) [OF parse_read2 keys_config2 _ rejects_users_first]
    by simp
  have "run flags2 no_answers read2 rejects_users (fresh None) =
      (Rejected view_creation_failed,
       snd (run flags2 no_answers read2 rejects_users (fresh None)))"
    using run_no_retry_and_propagates [OF parse_read2 distinct_keys_config2, of rejects_users]
      rejects_users_first
    by (simp add: made)
  then have "fst (run flags2 no_answers read2 rejects_users (fresh None)) =
      Rejected view_creation_failed"
    by (simp add: prod_eq_iff)
  then show ?thesis
    using run_no_retry_and_propagates [OF parse_read2 distinct_keys_config2, of rejects_users]
      made rejects_users_first
    by blast
qed

subsection \<open>The flattener\<close>

lemma flatten_append:
  "flatten (xs @ ys) pathPrefix =
     (case flatten xs pathPrefix of
        Inl failure \<Rightarrow> Inl failure
      | Inr (columns, childSchemas) \<Rightarrow>
          (case flatten ys pathPrefix of
             Inl failure \<Rightarrow> Inl failure
           | Inr (columns', childSchemas') \<Rightarrow>
               Inr (columns @ columns', childSchemas @ childSchemas')))"
  by (induction xs) (simp_all split: sum.split prod.split)

text \<open>
  C8. For every \<^verbatim>\<open>GEOPOINT\<close> field named \<open>f\<close>, flattening yields exactly two columns
  for that field and nothing else (no other column, no child schema): they are qualified
  \<^verbatim>\<open>f.latitude\<close> and \<^verbatim>\<open>f.longitude\<close> (under the path prefix, when the field is
  nested), in this order, and both have the SQL type \<^verbatim>\<open>FLOAT64\<close>. Among other
  fields, these two columns stand between the columns of the fields declared before and
  those of the fields declared after.
\<close>

theorem flatten_geopoint:
  "flatten [Field f GEOPOINT description] pathPrefix =
     Inr ([(qualify (pathPrefix @ [f, js ''latitude'']), GeoLatitude (pathPrefix @ [f]),
            SQL_FLOAT64),
           (qualify (pathPrefix @ [f, js ''longitude'']), GeoLongitude (pathPrefix @ [f]),
            SQL_FLOAT64)], []) \<and>
   qualify [f, js ''latitude''] = f @ js ''.latitude'' \<and>
   qualify [f, js ''longitude''] = f @ js ''.longitude'' \<and>
   (flatten before pathPrefix = Inr (columns, childSchemas) \<and>
    flatten after pathPrefix = Inr (columns', childSchemas') \<longrightarrow>
      flatten (before @ Field f GEOPOINT description # after) pathPrefix =
        Inr (columns @
             [(qualify (pathPrefix @ [f, js ''latitude'']), GeoLatitude (pathPrefix @ [f]),
               SQL_FLOAT64),
              (qualify (pathPrefix @ [f, js ''longitude'']), GeoLongitude (pathPrefix @ [f]),
               SQL_FLOAT64)] @ columns',
             childSchemas @ childSchemas'))"
proof (intro conjI impI)
  show "flatten [Field f GEOPOINT description] pathPrefix =
     Inr ([(qualify (pathPrefix @ [f, js ''latitude'']), GeoLatitude (pathPrefix @ [f]),
            SQL_FLOAT64),
           (qualify (pathPrefix @ [f, js ''longitude'']), GeoLongitude (pathPrefix @ [f]),
            SQL_FLOAT64)], [])"
    by simp
  show "qualify [f, js ''latitude''] = f @ js ''.latitude''"
    by (simp add: js_def)
  show "qualify [f, js ''longitude''] = f @ js ''.longitude''"
    by (simp add: js_def)
next
  assume "flatten before pathPrefix = Inr (columns, childSchemas) \<and>
    flatten after pathPrefix = Inr (columns', childSchemas')"
  then show "flatten (before @ Field f GEOPOINT description # after) pathPrefix =
        Inr (columns @
             [(qualify (pathPrefix @ [f, js ''latitude'']), GeoLatitude (pathPrefix @ [f]),
               SQL_FLOAT64),
              (qualify (pathPrefix @ [f, js ''longitude'']), GeoLongitude (pathPrefix @ [f]),
               SQL_FLOAT64)] @ columns',
             childSchemas @ childSchemas')"
    by (simp add: flatten_append)
qed

lemma flatten_name: "flatten [Field (js ''name'') STRING None] [] =
    Inr ([(js ''name'', JsonString [js ''name''], SQL_STRING)], [])"
  by simp

lemma flatten_tags:
  "flatten [Field (js ''tags'') (ARRAY (Field (js ''tag'') STRING None)) None] [] =
    Inr ([], [(js ''tags'', FirestoreSchema [Field (js ''tag'') STRING None])])"
  by simp

theorem flatten_geopoint_witness:
  "flatten [Field (js ''name'') STRING None, Field (js ''loc'') GEOPOINT None,
            Field (js ''tags'') (ARRAY (Field (js ''tag'') STRING None)) None] [] =
     Inr ([(js ''name'', JsonString [js ''name''], SQL_STRING),
           (js ''loc.latitude'', GeoLatitude [js ''loc''], SQL_FLOAT64),
           (js ''loc.longitude'', GeoLongitude [js ''loc''], SQL_FLOAT64)],
          [(js ''tags'', FirestoreSchema [Field (js ''tag'') STRING None])])"
proof -
  have lat: "qualify [js ''loc'', js ''latitude''] = js ''loc.latitude''"
    and long: "qualify [js ''loc'', js ''longitude''] = js ''loc.longitude''"
    by (simp_all add: js_def)
  show ?thesis
    using flatten_geopoint [of "js ''loc''" None "[]" "[Field (js ''name'') STRING None]"
        "[(js ''name'', JsonString [js ''name''], SQL_STRING)]" "[]"
        "[Field (js ''tags'') (ARRAY (Field (js ''tag'') STRING None)) None]" "[]"
        "[(js ''tags'', FirestoreSchema [Field (js ''tag'') STRING None])]"]
      flatten_name flatten_tags
    by (simp only: append_Nil append_Cons lat long simp_thms)
qed

subsection \<open>The Latest-Snapshot view\<close>

lemma most_recent_member: "most_recent rs = Some m \<Longrightarrow> m \<in> set rs"
  by (induction rs arbitrary: m) (auto split: option.splits if_splits)

lemma newer_trans_not: "\<not> newer a b \<Longrightarrow> \<not> newer b c \<Longrightarrow> \<not> newer a c"
  by (auto simp add: newer_def)

lemma newer_not_sym: "newer a b \<Longrightarrow> \<not> newer b a"
  by (auto simp add: newer_def)

lemma most_recent_maximal: "most_recent rs = Some m \<Longrightarrow> r \<in> set rs \<Longrightarrow> \<not> newer r m"
proof (induction rs arbitrary: m)
  case Nil
  then show ?case by simp
next
  case (Cons x rs)
  show ?case
  proof (cases "most_recent rs")
    case None
    then have "rs = []"
      by (cases rs) (auto split: option.splits if_splits)
    with Cons.prems None show ?thesis
      by (auto simp add: newer_def)
  next
    case (Some m')
    note IH = Cons.IH [OF Some]
    show ?thesis
    proof (cases "newer m' x")
      case True
      with Some Cons.prems(1) have m: "m = m'"
        by simp
      from Cons.prems(2) consider "r = x" | "r \<in> set rs"
        by auto
      then show ?thesis
      proof cases
        case 1
        with True m show ?thesis
          by (simp add: newer_not_sym)
      next
        case 2
        with IH m show ?thesis
          by simp
      qed
    next
      case False
      with Some Cons.prems(1) have m: "m = x"
        by simp
      from Cons.prems(2) consider "r = x" | "r \<in> set rs"
        by auto
      then show ?thesis
      proof cases
        case 1
        with m show ?thesis
          by (simp add: newer_def)
      next
        case 2
        then have "\<not> newer r m'"
          by (rule IH)
        with False m show ?thesis
          using newer_trans_not by blast
      qed
    qed
  qed
qed

lemma most_recent_None: "most_recent rs = None \<longleftrightarrow> rs = []"
  by (cases rs) (auto split: option.splits)

lemma most_recent_filter:
  "most_recent rs = Some m \<Longrightarrow> P m \<Longrightarrow> most_recent (filter P rs) = Some m"
proof (induction rs arbitrary: m)
  case Nil
  then show ?case by simp
next
  case (Cons x rs)
  show ?case
  proof (cases "most_recent rs")
    case None
    then have "rs = []"
      by (simp add: most_recent_None)
    with Cons.prems show ?thesis
      by auto
  next
    case (Some m')
    show ?thesis
    proof (cases "newer m' x")
      case True
      with Some Cons.prems(1) have m: "m = m'"
        by simp
      with Cons.prems(2) Some have "most_recent (filter P rs) = Some m'"
        by (simp add: Cons.IH)
      with True m show ?thesis
        by simp
    next
      case False
      with Some Cons.prems(1) have m: "m = x"
        by simp
      show ?thesis
      proof (cases "most_recent (filter P rs)")
        case None
        with m Cons.prems(2) show ?thesis
          by simp
      next
        case inner: (Some m'')
        then have "m'' \<in> set rs"
          using most_recent_member by fastforce
        then have "\<not> newer m'' m'"
          by (rule most_recent_maximal [OF Some])
        with False have "\<not> newer m'' x"
          using newer_trans_not by blast
        with inner m Cons.prems(2) show ?thesis
          by simp
      qed
    qed
  qed
qed

lemma snapshot_of_path_path: "r \<in> set (snapshot_of_path changelog q) \<Longrightarrow> document_path r = q"
proof -
  assume r: "r \<in> set (snapshot_of_path changelog q)"
  then have "most_recent (filter (\<lambda>r. operation r \<noteq> DELETE) (rows_of q changelog)) = Some r"
    by (auto simp add: snapshot_of_path_def split: option.splits if_splits)
  then have "r \<in> set (filter (\<lambda>r. operation r \<noteq> DELETE) (rows_of q changelog))"
    by (rule most_recent_member)
  then show ?thesis
    by (simp add: rows_of_def)
qed

lemma snapshot_of_path_absent:
  "path \<notin> set (map document_path changelog) \<Longrightarrow> snapshot_of_path changelog path = []"
proof -
  assume "path \<notin> set (map document_path changelog)"
  then have "rows_of path changelog = []"
    by (auto simp add: rows_of_def filter_empty_conv)
  then show ?thesis
    by (simp add: snapshot_of_path_def)
qed

lemma rows_of_concat:
  assumes "distinct qs"
    and "\<And>q r. r \<in> set (g q) \<Longrightarrow> document_path r = q"
  shows "rows_of path (concat (map g qs)) = (if path \<in> set qs then g path else [])"
  using assms(1)
proof (induction qs)
  case Nil
  then show ?case by (simp add: rows_of_def)
next
  case (Cons q qs)
  have own: "rows_of path (g q) = (if q = path then g q else [])"
    using assms(2) [of _ q] by (auto simp add: rows_of_def filter_empty_conv filter_id_conv)
  have "rows_of path (concat (map g (q # qs))) = rows_of path (g q) @ rows_of path (concat (map g qs))"
    by (simp add: rows_of_def)
  with Cons own show ?case
    by auto
qed

lemma snapshot_of_path_latest:
  "snapshot_of_path changelog path =
     (case most_recent (rows_of path changelog) of
        None \<Rightarrow> []
      | Some latest \<Rightarrow> if operation latest = DELETE then [] else [latest])"
proof (cases "most_recent (rows_of path changelog)")
  case None
  then show ?thesis
    by (simp add: snapshot_of_path_def)
next
  case (Some latest)
  show ?thesis
  proof (cases "operation latest = DELETE")
    case True
    with Some show ?thesis
      by (simp add: snapshot_of_path_def)
  next
    case False
    with Some have
      "most_recent (filter (\<lambda>r. operation r \<noteq> DELETE) (rows_of path changelog)) = Some latest"
      by (simp add: most_recent_filter)
    with Some False show ?thesis
      by (simp add: snapshot_of_path_def)
  qed
qed

text \<open>
  C7. For every state of the changelog table and every document path, the
  Latest-Snapshot view holds the rows of that path as follows: none when the most recent
  operation on the path is a delete (or the path has no row at all), and otherwise
  exactly one row, the most recent row of the path. The most recent row is a row of the
  path that no other row of the path is newer than, where newer means a greater
  timestamp, or the same timestamp and a greater sequence number.
\<close>

theorem latest_snapshot_selects_latest_live_row:
  "rows_of path (latest_snapshot changelog) =
     (case most_recent (rows_of path changelog) of
        None \<Rightarrow> []
      | Some latest \<Rightarrow> if operation latest = DELETE then [] else [latest]) \<and>
   (\<forall>latest. most_recent (rows_of path changelog) = Some latest \<longrightarrow>
      latest \<in> set changelog \<and> document_path latest = path \<and>
      (\<forall>r\<in>set changelog. document_path r = path \<longrightarrow>
         \<not> (changed_at latest < changed_at r \<or>
            (changed_at latest = changed_at r \<and> sequence_number latest < sequence_number r))))"
proof (intro conjI allI impI)
  have "rows_of path (latest_snapshot changelog) =
      (if path \<in> set (remdups (map document_path changelog))
       then snapshot_of_path changelog path else [])"
    unfolding latest_snapshot_def
    by (rule rows_of_concat) (simp_all add: snapshot_of_path_path)
  also have "\<dots> = snapshot_of_path changelog path"
    by (simp add: snapshot_of_path_absent)
  finally show "rows_of path (latest_snapshot changelog) =
     (case most_recent (rows_of path changelog) of
        None \<Rightarrow> []
      | Some latest \<Rightarrow> if operation latest = DELETE then [] else [latest])"
    by (simp only: snapshot_of_path_latest)
next
  fix latest
  assume latest: "most_recent (rows_of path changelog) = Some latest"
  then have member: "latest \<in> set (rows_of path changelog)"
    by (rule most_recent_member)
  then show "latest \<in> set changelog" and "document_path latest = path"
    by (simp_all add: rows_of_def)
  show "\<forall>r\<in>set changelog. document_path r = path \<longrightarrow>
         \<not> (changed_at latest < changed_at r \<or>
            (changed_at latest = changed_at r \<and> sequence_number latest < sequence_number r))"
  proof (intro ballI impI)
    fix r
    assume "r \<in> set changelog" "document_path r = path"
    then have "r \<in> set (rows_of path changelog)"
      by (simp add: rows_of_def)
    with latest have "\<not> newer r latest"
      by (rule most_recent_maximal)
    then show "\<not> (changed_at latest < changed_at r \<or>
            (changed_at latest = changed_at r \<and> sequence_number latest < sequence_number r))"
      by (simp add: newer_def)
  qed
qed

lemma example_ann:
  "most_recent (rows_of (js ''users/ann'') example_changelog) =
     Some \<lparr>document_path = js ''users/ann'', changed_at = 12, sequence_number = 2,
           operation = UPDATE, payload = js ''ann, version 2''\<rparr>"
  by (simp add: example_changelog_def rows_of_def newer_def js_def)

lemma example_bob:
  "most_recent (rows_of (js ''users/bob'') example_changelog) =
     Some \<lparr>document_path = js ''users/bob'', changed_at = 11, sequence_number = 1,
           operation = DELETE, payload = js ''null''\<rparr>"
  by (simp add: example_changelog_def rows_of_def newer_def js_def)

theorem latest_snapshot_selects_latest_live_row_witness:
  "rows_of (js ''users/ann'') (latest_snapshot example_changelog) =
     [\<lparr>document_path = js ''users/ann'', changed_at = 12, sequence_number = 2,
       operation = UPDATE, payload = js ''ann, version 2''\<rparr>] \<and>
   rows_of (js ''users/bob'') (latest_snapshot example_changelog) = []"
  using latest_snapshot_selects_latest_live_row [of "js ''users/ann''" example_changelog]
    latest_snapshot_selects_latest_live_row [of "js ''users/bob''" example_changelog]
  by (simp add: example_ann example_bob)

end
